theory Spec2Isabelle
  imports Complex_Main
begin

section \<open>URDF export helpers of the ROS workbench (urdf\_utils.py)\<close>

text \<open>
  The module converts FreeCAD placements and primitive shapes into URDF fragments.
  Python floats are modelled as reals, so that every formula of the source is read
  over exact arithmetic; numpy arrays are lists (of lists) of reals; exceptions are
  values of a sum type.
\<close>

subsection \<open>Python values\<close>

datatype error = RuntimeError | ValueError | IndexError

type_synonym Rpy = "real \<times> real \<times> real"
type_synonym QuatList = "real \<times> real \<times> real \<times> real"
type_synonym Vector = "real \<times> real \<times> real"
type_synonym ndarray = "real list list"

text \<open>\<^verbatim>\<open>_EPS = np.finfo(float).eps * 4.0\<close>, the machine epsilon of a double being \<open>2\<^sup>-\<^sup>5\<^sup>2\<close>.\<close>

definition EPS :: real where
  "EPS = 1 / 2 ^ 52 * 4"

text \<open>
  \<^verbatim>\<open>math.atan2(y, x)\<close> over the reals: the angle of the point \<open>(x, y)\<close> in \<open>(-\<pi>, \<pi>]\<close>,
  and \<open>0\<close> at the origin.
\<close>

definition atan2 :: "real \<Rightarrow> real \<Rightarrow> real" where
  "atan2 y x =
     (if 0 < x then arctan (y / x)
      else if x < 0 then (if 0 \<le> y then arctan (y / x) + pi else arctan (y / x) - pi)
      else if 0 < y then pi / 2
      else if y < 0 then - (pi / 2)
      else 0)"

text \<open>\<^verbatim>\<open>np.degrees\<close>, \<^verbatim>\<open>np.identity\<close>, \<^verbatim>\<open>np.dot\<close> and \<^verbatim>\<open>np.outer\<close> on one-dimensional arrays.\<close>

definition degrees :: "real \<Rightarrow> real" where
  "degrees x = x * 180 / pi"

definition identity :: "nat \<Rightarrow> ndarray" where
  "identity n = map (\<lambda>i. map (\<lambda>j. if i = j then 1 else 0) [0..<n]) [0..<n]"

definition dot :: "real list \<Rightarrow> real list \<Rightarrow> real" where
  "dot xs ys = sum_list (map (\<lambda>(a, b). a * b) (zip xs ys))"

definition outer :: "real list \<Rightarrow> real list \<Rightarrow> ndarray" where
  "outer xs ys = map (\<lambda>a. map (\<lambda>b. a * b) ys) xs"

definition array4 :: "QuatList \<Rightarrow> real list" where
  "array4 quaternion = (case quaternion of (qx, qy, qz, qw) \<Rightarrow> [qx, qy, qz, qw])"

subsection \<open>Rotation conversion\<close>

definition quaternion_matrix :: "QuatList \<Rightarrow> ndarray" where
  "quaternion_matrix quaternion =
     (let q = take 4 (array4 quaternion);
          nq = dot q q
      in if nq < EPS then identity 4
         else
           let q = map (\<lambda>c. c * sqrt (2 / nq)) q;
               q = outer q q
           in [[1 - q!1!1 - q!2!2,     q!0!1 - q!2!3,     q!0!2 + q!1!3, 0],
               [    q!0!1 + q!2!3, 1 - q!0!0 - q!2!2,     q!1!2 - q!0!3, 0],
               [    q!0!2 - q!1!3,     q!1!2 + q!0!3, 1 - q!0!0 - q!1!1, 0],
               [                0,                 0,                 0, 1]])"

text \<open>
  \<^verbatim>\<open>np.array(matrix, dtype=np.float64)\<close> refuses a ragged nested sequence (ValueError);
  \<^verbatim>\<open>[:3, :3]\<close> keeps at most three rows and three columns, and reading an entry that
  the slice does not have raises IndexError.
\<close>

definition euler_from_matrix :: "ndarray \<Rightarrow> error + Rpy" where
  "euler_from_matrix matrix =
     (if \<not> list_all (\<lambda>row. length row = length (hd matrix)) matrix then Inl ValueError
      else
        let i = 0; j = 1; k = 2;
            M = map (take 3) (take 3 matrix)
        in if length M < 3 \<or> length (hd M) < 3 then Inl IndexError
           else
             let cy = sqrt (M!i!i * M!i!i + M!j!i * M!j!i)
             in if cy > EPS
                then Inr (atan2 (M!k!j) (M!k!k), atan2 (- (M!k!i)) cy, atan2 (M!j!i) (M!i!i))
                else Inr (atan2 (- (M!j!k)) (M!j!j), atan2 (- (M!k!i)) cy, 0))"

definition rpy_from_quaternion :: "QuatList \<Rightarrow> error + Rpy" where
  "rpy_from_quaternion q = euler_from_matrix (quaternion_matrix q)"

subsection \<open>Values of the CAD host\<close>

text \<open>
  The host (FreeCAD) is not part of the module. Its vectors are triples of lengths in
  millimetres; its rotations are quaternions \<open>(x, y, z, w)\<close> that the host keeps
  normalised; a placement is a translation and a rotation. The operations below are
  the host's: building a rotation from an axis and an angle in degrees, multiplying
  rotations, rotating a vector, and composing placements (\<^verbatim>\<open>p1 * p2\<close> applies
  \<^verbatim>\<open>p2\<close> first). A quaternion and its negative are the same rotation, so statements
  about rotations compare their action on vectors.
\<close>

definition Vector_add :: "Vector \<Rightarrow> Vector \<Rightarrow> Vector" where
  "Vector_add u v = (case u of (ux, uy, uz) \<Rightarrow> case v of (vx, vy, vz) \<Rightarrow> (ux + vx, uy + vy, uz + vz))"

definition Vector_mul :: "Vector \<Rightarrow> real \<Rightarrow> Vector" where
  "Vector_mul v c = (case v of (vx, vy, vz) \<Rightarrow> (vx * c, vy * c, vz * c))"

definition Vector_div :: "Vector \<Rightarrow> real \<Rightarrow> Vector" where
  "Vector_div v c = (case v of (vx, vy, vz) \<Rightarrow> (vx / c, vy / c, vz / c))"

definition normalize :: "QuatList \<Rightarrow> QuatList" where
  "normalize q =
     (case q of (x, y, z, w) \<Rightarrow>
        let len = sqrt (x * x + y * y + z * z + w * w)
        in if len > 0 then (x / len, y / len, z / len, w / len) else (x, y, z, w))"

text \<open>\<^verbatim>\<open>fc.Rotation()\<close> is the identity rotation.\<close>

definition Rotation_identity :: QuatList where
  "Rotation_identity = (0, 0, 0, 1)"

text \<open>\<^verbatim>\<open>fc.Rotation(axis, angle)\<close>: the rotation about \<open>axis\<close> by \<open>angle\<close> degrees.\<close>

definition Rotation_axis_angle :: "Vector \<Rightarrow> real \<Rightarrow> QuatList" where
  "Rotation_axis_angle axis angle =
     (case axis of (ax, ay, az) \<Rightarrow>
        let fAngle = angle * pi / 180;
            l = sqrt (ax * ax + ay * ay + az * az);
            norm = (if l > 0 then (ax / l, ay / l, az / l) else (ax, ay, az));
            scale = sin (fAngle / 2)
        in (case norm of (nx, ny, nz) \<Rightarrow> (nx * scale, ny * scale, nz * scale, cos (fAngle / 2))))"

definition Rotation_mult :: "QuatList \<Rightarrow> QuatList \<Rightarrow> QuatList" where
  "Rotation_mult q0 q1 =
     (case q0 of (x0, y0, z0, w0) \<Rightarrow> case q1 of (x1, y1, z1, w1) \<Rightarrow>
        normalize (w0 * x1 + x0 * w1 + y0 * z1 - z0 * y1,
                   w0 * y1 - x0 * z1 + y0 * w1 + z0 * x1,
                   w0 * z1 + x0 * y1 - y0 * x1 + z0 * w1,
                   w0 * w1 - x0 * x1 - y0 * y1 - z0 * z1))"

definition multVec :: "QuatList \<Rightarrow> Vector \<Rightarrow> Vector" where
  "multVec q src =
     (case q of (x, y, z, w) \<Rightarrow> case src of (sx, sy, sz) \<Rightarrow>
        ((x * x + w * w - y * y - z * z) * sx + 2 * (x * y - z * w) * sy + 2 * (x * z + y * w) * sz,
         2 * (x * y + z * w) * sx + (w * w - x * x + y * y - z * z) * sy + 2 * (y * z - x * w) * sz,
         2 * (x * z - y * w) * sx + 2 * (x * w + y * z) * sy + (w * w - x * x - y * y + z * z) * sz))"

record placement =
  Base :: Vector
  Rotation :: QuatList

definition Placement_identity :: placement where
  "Placement_identity = \<lparr>Base = (0, 0, 0), Rotation = Rotation_identity\<rparr>"

definition Placement_mult :: "placement \<Rightarrow> placement \<Rightarrow> placement" where
  "Placement_mult p1 p2 =
     \<lparr>Base = Vector_add (Base p1) (multVec (Rotation p1) (Base p2)),
      Rotation = Rotation_mult (Rotation p1) (Rotation p2)\<rparr>"

subsection \<open>From roll, pitch and yaw to a rotation\<close>

text \<open>
  The rotation of a roll, pitch and yaw, by the host's operations: \<^verbatim>\<open>a * b * c\<close> is
  \<^verbatim>\<open>(a * b) * c\<close>.
\<close>

definition rotation_from_rpy :: "Rpy \<Rightarrow> QuatList" where
  "rotation_from_rpy rpy =
     (case rpy of (rpy0, rpy1, rpy2) \<Rightarrow>
        Rotation_mult
          (Rotation_mult (Rotation_axis_angle (0, 0, 1) (degrees rpy2))
                         (Rotation_axis_angle (0, 1, 0) (degrees rpy1)))
          (Rotation_axis_angle (1, 0, 0) (degrees rpy0)))"

subsection \<open>Optional arguments and document objects\<close>

text \<open>
  The truth value of a placement in a Python condition: the host's placement type
  answers true for every placement, so \<^verbatim>\<open>not placement\<close> holds exactly for \<^verbatim>\<open>None\<close>.
\<close>

definition Placement_bool :: "placement \<Rightarrow> bool" where
  "Placement_bool p = True"

definition not_placement :: "placement option \<Rightarrow> bool" where
  "not_placement p = (case p of None \<Rightarrow> True | Some v \<Rightarrow> \<not> Placement_bool v)"

text \<open>\<^verbatim>\<open>if not placement: placement = other\<close>, for an optional placement.\<close>

definition placement_or :: "placement option \<Rightarrow> placement \<Rightarrow> placement" where
  "placement_or p other =
     (if not_placement p then other else (case p of None \<Rightarrow> other | Some v \<Rightarrow> v))"

text \<open>\<^verbatim>\<open>not package_name\<close> for an optional string: true for \<^verbatim>\<open>None\<close> and for the empty string.\<close>

definition not_str :: "string option \<Rightarrow> bool" where
  "not_str s = (case s of None \<Rightarrow> True | Some v \<Rightarrow> v = [])"

text \<open>
  \<^verbatim>\<open>if not package_name: package_name = 'package'\<close>: the package name after the
  statement.
\<close>

definition package_or_fallback :: "string option \<Rightarrow> string" where
  "package_or_fallback package_name =
     (if not_str package_name then ''package''
      else (case package_name of None \<Rightarrow> ''package'' | Some s \<Rightarrow> s))"

text \<open>
  A document object, with the attributes the module reads. Lengths are the
  \<^verbatim>\<open>.Value\<close> of the host's quantities, in millimetres.
\<close>

record DO =
  TypeId :: string
  Label :: string
  Placement :: placement
  Length :: real
  Width :: real
  Height :: real
  Radius :: real

text \<open>\<^verbatim>\<open>quantity.getValueAs('m')\<close> for a length held in millimetres.\<close>

definition getValueAs_m :: "real \<Rightarrow> real" where
  "getValueAs_m v = v / 1000"

text \<open>
  What the module imports from the rest of the workbench and asks of the host: the kind
  predicates and helpers of \<^verbatim>\<open>freecad_utils\<close> and \<^verbatim>\<open>utils\<close>, the members of a group,
  the target of a link, and the resolution of a leaf to its linked object and
  accumulated matrix. They are parameters of the model.
\<close>

type_synonym Matrix = "real list list"

record host =
  is_box :: "DO \<Rightarrow> bool"
  is_cylinder :: "DO \<Rightarrow> bool"
  is_sphere :: "DO \<Rightarrow> bool"
  is_group :: "DO \<Rightarrow> bool"
  is_lcs :: "DO \<Rightarrow> bool"
  is_fclink :: "DO \<Rightarrow> bool"
  is_part :: "DO \<Rightarrow> bool"
  has_placement :: "DO \<Rightarrow> bool"
  label_or :: "DO \<Rightarrow> string"
  get_valid_filename :: "string \<Rightarrow> string"
  xml_comment :: "string \<Rightarrow> string"
  get_leafs_and_subnames :: "DO \<Rightarrow> (DO \<times> string) list"
  getLinkedObject :: "DO \<Rightarrow> DO"
  getLinkedObject_matrix :: "DO \<Rightarrow> DO \<times> Matrix"
  Placement_of_Matrix :: "Matrix \<Rightarrow> placement"
  Group :: "DO \<Rightarrow> DO list"
  LinkedObject :: "DO \<Rightarrow> DO"

text \<open>The warnings the module hands to \<^verbatim>\<open>warn\<close>, by message.\<close>

datatype warning =
    Warn_package_name_empty  \<comment> \<open>Internal error, `package\_name` empty but mesh found, using "package"\<close>
  | Warn_not_a_link string  \<comment> \<open>"\<open>label\<close>" is not a link, ignoring\<close>
  | Warn_not_lcs_or_part string  \<comment> \<open>Linked object of "\<open>label\<close>" is not a coordinate system or part, ignoring\<close>

subsection \<open>XML elements\<close>

text \<open>
  An element of \<^verbatim>\<open>xml.etree.ElementTree\<close>: a tag, its attributes in order and its
  children in order; \<^verbatim>\<open>et.Comment\<close> is a node of its own. An attribute value that a
  format string builds is kept as its pieces: literal text, and floats together with
  the precision of their replacement field (\<^verbatim>\<open>{x:.6}\<close> is \<open>Float (Some 6) x\<close>, six
  significant digits; \<^verbatim>\<open>{x}\<close> is \<open>Float None x\<close>, the float written in full).
  The tag and the strings put into a fragment are taken to be free of markup, so that
  \<^verbatim>\<open>et.fromstring\<close> returns the element the fragment writes.
\<close>

datatype piece = Str string | Float "nat option" real

datatype Element =
    Element (tag: string) (attrib: "(string \<times> piece list) list") (children: "Element list")
  | Comment (comment_text: string)

subsection \<open>Origins, geometries and centre placements\<close>

definition urdf_origin_from_placement :: "placement \<Rightarrow> error + Element" where
  "urdf_origin_from_placement p =
     (case rpy_from_quaternion (Rotation p) of
        Inl e \<Rightarrow> Inl e
      | Inr rpy \<Rightarrow>
          (case rpy of (r0, r1, r2) \<Rightarrow>
           case Vector_mul (Base p) (1 / 1000) of (vx, vy, vz) \<Rightarrow>
             Inr (Element ''origin''
                    [(''xyz'', [Float (Some 6) vx, Str '' '', Float (Some 6) vy, Str '' '',
                                Float (Some 6) vz]),
                     (''rpy'', [Float None r0, Str '' '', Float None r1, Str '' '',
                                Float None r2])]
                    [])))"

definition urdf_geometry_box :: "real \<Rightarrow> real \<Rightarrow> real \<Rightarrow> Element" where
  "urdf_geometry_box length_x length_y length_z =
     Element ''geometry'' []
       [Element ''box''
          [(''size'', [Float None length_x, Str '' '', Float None length_y, Str '' '',
                       Float None length_z])] []]"

definition urdf_box_placement_from_object :: "host \<Rightarrow> DO \<Rightarrow> placement option \<Rightarrow> error + placement" where
  "urdf_box_placement_from_object h box placement =
     (if \<not> is_box h box then Inl RuntimeError
      else
        let placement = placement_or placement (Placement box);
            to_center = \<lparr>Base = Vector_div (Length box, Width box, Height box) 2,
                         Rotation = Rotation_identity\<rparr>
        in Inr (Placement_mult placement to_center))"

definition urdf_geometry_sphere :: "real \<Rightarrow> Element" where
  "urdf_geometry_sphere radius =
     Element ''geometry'' [] [Element ''sphere'' [(''radius'', [Float None radius])] []]"

definition urdf_sphere_placement_from_object :: "host \<Rightarrow> DO \<Rightarrow> placement option \<Rightarrow> error + placement" where
  "urdf_sphere_placement_from_object h sphere placement =
     (if \<not> is_sphere h sphere then Inl RuntimeError
      else
        let placement = placement_or placement (Placement sphere)
        in Inr placement)"

definition urdf_geometry_cylinder :: "real \<Rightarrow> real \<Rightarrow> Element" where
  "urdf_geometry_cylinder radius len =
     Element ''geometry'' []
       [Element ''cylinder'' [(''radius'', [Float None radius]), (''length'', [Float None len])] []]"

definition urdf_cylinder_placement_from_object :: "host \<Rightarrow> DO \<Rightarrow> placement option \<Rightarrow> error + placement" where
  "urdf_cylinder_placement_from_object h cyl placement =
     (if \<not> is_cylinder h cyl then Inl RuntimeError
      else
        let placement = placement_or placement (Placement cyl);
            to_center = \<lparr>Base = (0, 0, Height cyl / 2), Rotation = Rotation_identity\<rparr>
        in Inr (Placement_mult placement to_center))"

subsection \<open>Visual and collision elements of the primitives\<close>

definition urdf_generic_from_box :: "host \<Rightarrow> DO \<Rightarrow> string \<Rightarrow> placement \<Rightarrow> bool \<Rightarrow> error + Element" where
  "urdf_generic_from_box h box generic placement ignore_obj_placement =
     (if \<not> is_box h box then Inl RuntimeError
      else
        let placement = (if \<not> ignore_obj_placement then Placement_mult placement (Placement box)
                         else placement)
        in (case urdf_box_placement_from_object h box (Some placement) of
              Inl e \<Rightarrow> Inl e
            | Inr center_placement \<Rightarrow>
                (case urdf_origin_from_placement center_placement of
                   Inl e \<Rightarrow> Inl e
                 | Inr origin \<Rightarrow>
                     Inr (Element generic []
                            [origin,
                             urdf_geometry_box (getValueAs_m (Length box))
                               (getValueAs_m (Width box)) (getValueAs_m (Height box))]))))"

definition urdf_visual_from_box :: "host \<Rightarrow> DO \<Rightarrow> placement \<Rightarrow> bool \<Rightarrow> error + Element" where
  "urdf_visual_from_box h box placement ignore_obj_placement =
     urdf_generic_from_box h box ''visual'' placement ignore_obj_placement"

definition urdf_collision_from_box :: "host \<Rightarrow> DO \<Rightarrow> placement \<Rightarrow> bool \<Rightarrow> error + Element" where
  "urdf_collision_from_box h box placement ignore_obj_placement =
     urdf_generic_from_box h box ''collision'' placement ignore_obj_placement"

text \<open>
  The sphere: the placement is composed as for the other primitives, and the element
  receives the geometry only.
\<close>

definition urdf_generic_from_sphere :: "host \<Rightarrow> DO \<Rightarrow> string \<Rightarrow> placement \<Rightarrow> bool \<Rightarrow> error + Element" where
  "urdf_generic_from_sphere h sphere generic placement ignore_obj_placement =
     (if \<not> is_sphere h sphere then Inl RuntimeError
      else
        let placement = (if \<not> ignore_obj_placement then Placement_mult placement (Placement sphere)
                         else placement)
        in Inr (Element generic [] [urdf_geometry_sphere (getValueAs_m (Radius sphere))]))"

definition urdf_visual_from_sphere :: "host \<Rightarrow> DO \<Rightarrow> placement \<Rightarrow> bool \<Rightarrow> error + Element" where
  "urdf_visual_from_sphere h sphere placement ignore_obj_placement =
     urdf_generic_from_sphere h sphere ''visual'' placement ignore_obj_placement"

definition urdf_collision_from_sphere :: "host \<Rightarrow> DO \<Rightarrow> placement \<Rightarrow> bool \<Rightarrow> error + Element" where
  "urdf_collision_from_sphere h sphere placement ignore_obj_placement =
     urdf_generic_from_sphere h sphere ''collision'' placement ignore_obj_placement"

definition urdf_generic_from_cylinder :: "host \<Rightarrow> DO \<Rightarrow> string \<Rightarrow> placement \<Rightarrow> bool \<Rightarrow> error + Element" where
  "urdf_generic_from_cylinder h cyl generic placement ignore_obj_placement =
     (if \<not> is_cylinder h cyl then Inl RuntimeError
      else
        let placement = (if \<not> ignore_obj_placement then Placement_mult placement (Placement cyl)
                         else placement)
        in (case urdf_cylinder_placement_from_object h cyl (Some placement) of
              Inl e \<Rightarrow> Inl e
            | Inr center_placement \<Rightarrow>
                (case urdf_origin_from_placement center_placement of
                   Inl e \<Rightarrow> Inl e
                 | Inr origin \<Rightarrow>
                     Inr (Element generic []
                            [origin,
                             urdf_geometry_cylinder (getValueAs_m (Radius cyl))
                               (getValueAs_m (Height cyl))]))))"

definition urdf_visual_from_cylinder :: "host \<Rightarrow> DO \<Rightarrow> placement \<Rightarrow> bool \<Rightarrow> error + Element" where
  "urdf_visual_from_cylinder h cyl placement ignore_obj_placement =
     urdf_generic_from_cylinder h cyl ''visual'' placement ignore_obj_placement"

definition urdf_collision_from_cylinder :: "host \<Rightarrow> DO \<Rightarrow> placement \<Rightarrow> bool \<Rightarrow> error + Element" where
  "urdf_collision_from_cylinder h cyl placement ignore_obj_placement =
     urdf_generic_from_cylinder h cyl ''collision'' placement ignore_obj_placement"

subsection \<open>Mesh references\<close>

definition urdf_geometry_mesh :: "string \<Rightarrow> string \<Rightarrow> Element" where
  "urdf_geometry_mesh mesh_name package_name =
     Element ''geometry'' []
       [Element ''mesh''
          [(''filename'', [Str (''package://'' @ package_name @ ''/meshes/'' @ mesh_name)])] []]"

definition urdf_generic_mesh :: "host \<Rightarrow> DO \<Rightarrow> string \<Rightarrow> string \<Rightarrow> string \<Rightarrow> placement \<Rightarrow> error + Element" where
  "urdf_generic_mesh h obj mesh_name package_name generic placement =
     (if (\<not> Placement_bool placement) \<and> (\<not> has_placement h obj) then Inl RuntimeError
      else
        (case urdf_origin_from_placement placement of
           Inl e \<Rightarrow> Inl e
         | Inr origin \<Rightarrow>
             Inr (Element generic []
                    [Comment (xml_comment h (Label obj)),
                     origin,
                     urdf_geometry_mesh mesh_name package_name])))"

definition urdf_visual_mesh :: "host \<Rightarrow> DO \<Rightarrow> string \<Rightarrow> string \<Rightarrow> placement \<Rightarrow> error + Element" where
  "urdf_visual_mesh h obj mesh_name package_name placement =
     urdf_generic_mesh h obj mesh_name package_name ''visual'' placement"

definition urdf_collision_mesh :: "host \<Rightarrow> DO \<Rightarrow> string \<Rightarrow> string \<Rightarrow> placement \<Rightarrow> error + Element" where
  "urdf_collision_mesh h obj mesh_name package_name placement =
     urdf_generic_mesh h obj mesh_name package_name ''collision'' placement"

subsection \<open>The generic dispatcher\<close>

record XmlForExport =
  xml :: Element
  object :: DO
  placement :: placement
  mesh_filename :: string

text \<open>
  The body of the loop over the leaves, for one leaf: the export record, the package
  name as the body leaves it (the fallback replaces a missing one for the rest of the
  loop) and the warnings it emits.
\<close>

definition urdf_generic_from_leaf ::
  "host \<Rightarrow> DO \<Rightarrow> string \<Rightarrow> string option \<Rightarrow> placement option \<Rightarrow> DO \<times> string
    \<Rightarrow> error + (XmlForExport \<times> string option \<times> warning list)" where
  "urdf_generic_from_leaf h obj generic package_name placement' leaf =
     (case leaf of (subobj, subname) \<Rightarrow>
      case getLinkedObject_matrix h subobj of (linked_object, linked_matrix) \<Rightarrow>
        let this_placement =
              (if not_placement placement' then Placement_of_Matrix h linked_matrix
               else Placement_mult (placement_or placement' Placement_identity)
                      (Placement_of_Matrix h linked_matrix));
            filename = []
        in if is_box h linked_object then
             (case urdf_generic_from_box h linked_object generic this_placement True of
                Inl e \<Rightarrow> Inl e
              | Inr xml' \<Rightarrow>
                  Inr (\<lparr>xml = xml', object = linked_object, placement = this_placement,
                        mesh_filename = filename\<rparr>, package_name, []))
           else if is_sphere h linked_object then
             (case urdf_generic_from_sphere h linked_object generic this_placement True of
                Inl e \<Rightarrow> Inl e
              | Inr xml' \<Rightarrow>
                  Inr (\<lparr>xml = xml', object = linked_object, placement = this_placement,
                        mesh_filename = filename\<rparr>, package_name, []))
           else if is_cylinder h linked_object then
             (case urdf_generic_from_cylinder h linked_object generic this_placement True of
                Inl e \<Rightarrow> Inl e
              | Inr xml' \<Rightarrow>
                  Inr (\<lparr>xml = xml', object = linked_object, placement = this_placement,
                        mesh_filename = filename\<rparr>, package_name, []))
           else
             let filename = get_valid_filename h (Label (getLinkedObject h obj)) @ ''.dae'';
                 warnings = (if not_str package_name then [Warn_package_name_empty] else []);
                 package_name = package_or_fallback package_name
             in (case urdf_generic_mesh h linked_object filename package_name generic
                        this_placement of
                   Inl e \<Rightarrow> Inl e
                 | Inr xml' \<Rightarrow>
                     Inr (\<lparr>xml = xml', object = linked_object, placement = this_placement,
                           mesh_filename = filename\<rparr>, Some package_name, warnings)))"

fun urdf_generic_from_leafs ::
  "host \<Rightarrow> DO \<Rightarrow> string \<Rightarrow> placement option \<Rightarrow> (DO \<times> string) list \<Rightarrow> string option
    \<Rightarrow> XmlForExport list \<Rightarrow> warning list \<Rightarrow> error + (XmlForExport list \<times> warning list)" where
  "urdf_generic_from_leafs h obj generic placement' [] package_name out_data warnings =
     Inr (out_data, warnings)"
| "urdf_generic_from_leafs h obj generic placement' (leaf # leafs) package_name out_data warnings =
     (case urdf_generic_from_leaf h obj generic package_name placement' leaf of
        Inl e \<Rightarrow> Inl e
      | Inr (r, package_name', ws) \<Rightarrow>
          urdf_generic_from_leafs h obj generic placement' leafs package_name'
            (out_data @ [r]) (warnings @ ws))"

text \<open>The result is the list of export records together with the warnings emitted.\<close>

definition urdf_generic_from_object ::
  "host \<Rightarrow> DO \<Rightarrow> string \<Rightarrow> string option \<Rightarrow> placement option
    \<Rightarrow> error + (XmlForExport list \<times> warning list)" where
  "urdf_generic_from_object h obj generic package_name placement' =
     urdf_generic_from_leafs h obj generic placement' (get_leafs_and_subnames h obj)
       package_name [] []"

definition urdf_visual_from_object ::
  "host \<Rightarrow> DO \<Rightarrow> string option \<Rightarrow> placement option \<Rightarrow> error + (XmlForExport list \<times> warning list)" where
  "urdf_visual_from_object h obj package_name placement' =
     urdf_generic_from_object h obj ''visual'' package_name placement'"

definition urdf_collision_from_object ::
  "host \<Rightarrow> DO \<Rightarrow> string option \<Rightarrow> placement option \<Rightarrow> error + (XmlForExport list \<times> warning list)" where
  "urdf_collision_from_object h obj package_name placement' =
     urdf_generic_from_object h obj ''collision'' package_name placement'"

subsection \<open>Groups of links to coordinate systems\<close>

fun export_group_with_lcs_loop :: "host \<Rightarrow> DO list \<Rightarrow> warning list \<Rightarrow> warning list" where
  "export_group_with_lcs_loop h [] warnings = warnings"
| "export_group_with_lcs_loop h (fc_link # fc_links) warnings =
     (if \<not> is_fclink h fc_link then
        export_group_with_lcs_loop h fc_links (warnings @ [Warn_not_a_link (label_or h fc_link)])
      else
        let linked_object = LinkedObject h fc_link
        in if \<not> (is_lcs h linked_object \<or> is_part h linked_object) then
             export_group_with_lcs_loop h fc_links
               (warnings @ [Warn_not_lcs_or_part (label_or h fc_link)])
           else export_group_with_lcs_loop h fc_links warnings)"

text \<open>The result is the returned boolean together with the warnings emitted.\<close>

definition export_group_with_lcs :: "host \<Rightarrow> DO \<Rightarrow> string \<Rightarrow> error + (bool \<times> warning list)" where
  "export_group_with_lcs h grp package_path =
     (if \<not> is_group h grp then Inl ValueError
      else
        let fc_links = Group h grp
        in Inr (True, export_group_with_lcs_loop h fc_links []))"

subsection \<open>Unit quaternions\<close>

text \<open>A quaternion of squared norm 1, the squared norm being the \<open>dot\<close> of the source.\<close>

abbreviation unit_quaternion :: "QuatList \<Rightarrow> bool" where
  "unit_quaternion q \<equiv> dot (array4 q) (array4 q) = 1"

subsection \<open>Notions used in the statements about the dispatcher\<close>

text \<open>
  The object a leaf resolves to; the condition of the last branch of the dispatcher
  (the leaf is neither a box, nor a sphere, nor a cylinder); and what is stated of the
  export record \<open>r\<close> of a leaf: its object, its mesh file name, and for a mesh leaf the
  shape of its element, with the package name the mesh reference carries.
\<close>

abbreviation linked_leaf :: "host \<Rightarrow> DO \<times> string \<Rightarrow> DO" where
  "linked_leaf h leaf \<equiv> fst (getLinkedObject_matrix h (fst leaf))"

abbreviation is_mesh_leaf :: "host \<Rightarrow> DO \<times> string \<Rightarrow> bool" where
  "is_mesh_leaf h leaf \<equiv>
     \<not> is_box h (linked_leaf h leaf) \<and> \<not> is_sphere h (linked_leaf h leaf)
     \<and> \<not> is_cylinder h (linked_leaf h leaf)"

abbreviation leaf_record ::
  "host \<Rightarrow> DO \<Rightarrow> string \<Rightarrow> string \<Rightarrow> DO \<times> string \<Rightarrow> XmlForExport \<Rightarrow> bool" where
  "leaf_record h obj generic package leaf r \<equiv>
     object r = linked_leaf h leaf
     \<and> (if is_mesh_leaf h leaf
        then mesh_filename r = get_valid_filename h (Label (getLinkedObject h obj)) @ ''.dae''
             \<and> (\<exists>a. xml r =
                   Element generic []
                     [Comment (xml_comment h (Label (linked_leaf h leaf))),
                      Element ''origin'' a [],
                      urdf_geometry_mesh
                        (get_valid_filename h (Label (getLinkedObject h obj)) @ ''.dae'') package])
        else mesh_filename r = [])"

subsection \<open>A concrete host\<close>

text \<open>
  A small host on which the functions can be evaluated: kinds are decided by the type
  identifier, the part labelled \<open>Robot\<close> has the box \<open>Base\<close> and the mesh \<open>Arm\<close> as
  leaves, every other object is its own leaf, and the group labelled \<open>Joints\<close> holds a
  box, a link to a coordinate system and a link to a box.
\<close>

definition example_object :: "string \<Rightarrow> string \<Rightarrow> DO" where
  "example_object typeid label =
     \<lparr>TypeId = typeid, Label = label, Placement = Placement_identity,
      Length = 2, Width = 4, Height = 6, Radius = 5\<rparr>"

definition example_host :: host where
  "example_host =
     \<lparr>is_box = (\<lambda>obj. TypeId obj = ''Part::Box''),
      is_cylinder = (\<lambda>obj. TypeId obj = ''Part::Cylinder''),
      is_sphere = (\<lambda>obj. TypeId obj = ''Part::Sphere''),
      is_group = (\<lambda>obj. TypeId obj = ''App::DocumentObjectGroup''),
      is_lcs = (\<lambda>obj. TypeId obj = ''PartDesign::CoordinateSystem''),
      is_fclink = (\<lambda>obj. TypeId obj = ''App::Link''),
      is_part = (\<lambda>obj. TypeId obj = ''App::Part''),
      has_placement = (\<lambda>obj. True),
      label_or = Label,
      get_valid_filename = map (\<lambda>c. if c = CHR '' '' then CHR ''_'' else c),
      xml_comment = (\<lambda>s. s),
      get_leafs_and_subnames =
        (\<lambda>obj. if Label obj = ''Robot''
               then [(example_object ''Part::Box'' ''Base'', ''Base.''),
                     (example_object ''Mesh::Feature'' ''Arm'', ''Arm.'')]
               else [(obj, [])]),
      getLinkedObject = (\<lambda>obj. obj),
      getLinkedObject_matrix = (\<lambda>obj. (obj, identity 4)),
      Placement_of_Matrix = (\<lambda>m. \<lparr>Base = (m!0!3, m!1!3, m!2!3), Rotation = Rotation_identity\<rparr>),
      Group =
        (\<lambda>obj. if Label obj = ''Joints''
               then [example_object ''Part::Box'' ''Base'',
                     example_object ''App::Link'' ''Link'',
                     example_object ''App::Link'' ''Loose'']
               else []),
      LinkedObject =
        (\<lambda>obj. if Label obj = ''Link'' then example_object ''PartDesign::CoordinateSystem'' ''LCS''
               else example_object ''Part::Box'' ''Base'')\<rparr>"

section \<open>Properties\<close>

subsection \<open>Degenerate quaternions\<close>

lemma dot_array4:
  "dot (take 4 (array4 (x, y, z, w))) (take 4 (array4 (x, y, z, w))) = x * x + y * y + z * z + w * w"
  by (simp add: dot_def array4_def)

lemma identity_4:
  "identity 4 = [[1, 0, 0, 0], [0, 1, 0, 0], [0, 0, 1, 0], [0, 0, 0, 1]]"
proof -
  have "[0..<4] = [0, 1, 2, 3]"
    by (simp add: upt_rec)
  then show ?thesis
    by (simp add: identity_def)
qed

text \<open>
  C4: a quaternion whose squared norm \<open>dot q q\<close> is below four times the machine epsilon
  of a double, the zero quaternion included, is mapped by \<open>quaternion_matrix\<close> to the
  4x4 identity matrix.
\<close>

theorem quaternion_matrix_degenerate:
  assumes "dot (array4 q) (array4 q) < 4 * (1 / 2 ^ 52)"
  shows "quaternion_matrix q = [[1, 0, 0, 0], [0, 1, 0, 0], [0, 0, 1, 0], [0, 0, 0, 1]]"
proof -
  obtain x y z w where q: "q = (x, y, z, w)"
    by (cases q) auto
  have "take 4 (array4 q) = array4 q"
    by (simp add: q array4_def)
  with assms have "dot (take 4 (array4 q)) (take 4 (array4 q)) < EPS"
    by (simp add: EPS_def)
  then show ?thesis
    by (simp add: quaternion_matrix_def Let_def identity_4)
qed

theorem quaternion_matrix_degenerate_witness:
  "dot (array4 (0, 0, 0, 0)) (array4 (0, 0, 0, 0)) < 4 * (1 / 2 ^ 52)
   \<and> quaternion_matrix (0, 0, 0, 0) = [[1, 0, 0, 0], [0, 1, 0, 0], [0, 0, 1, 0], [0, 0, 0, 1]]"
proof -
  have h: "dot (array4 (0, 0, 0, 0)) (array4 (0, 0, 0, 0)) < 4 * (1 / 2 ^ 52)"
    by (simp add: dot_def array4_def)
  from h quaternion_matrix_degenerate [OF h] show ?thesis
    by simp
qed

subsection \<open>Euler angles of a matrix\<close>

lemma slice_entry:
  assumes "i < 3" "j < 3" "i < length m" "j < length (m ! i)"
  shows "map (take 3) (take 3 m) ! i ! j = m ! i ! j"
  using assms by simp

text \<open>
  C5: on a 3x3 or 4x4 matrix \<open>m\<close>, \<open>euler_from_matrix\<close> computes
  \<open>cy = sqrt (m[0,0]\<^sup>2 + m[1,0]\<^sup>2)\<close>; above the threshold it returns
  \<open>(atan2 m[2,1] m[2,2], atan2 (- m[2,0]) cy, atan2 m[1,0] m[0,0])\<close>, and at or below it
  \<open>(atan2 (- m[1,2]) m[1,1], atan2 (- m[2,0]) cy, 0)\<close>.
\<close>

theorem euler_from_matrix_contract:
  assumes shape: "length m = 3 \<or> length m = 4"
    and square: "list_all (\<lambda>row. length row = length m) m"
  shows "euler_from_matrix m =
     Inr (let cy = sqrt (m!0!0 * m!0!0 + m!1!0 * m!1!0)
          in if cy > 4 * (1 / 2 ^ 52)
             then (atan2 (m!2!1) (m!2!2), atan2 (- (m!2!0)) cy, atan2 (m!1!0) (m!0!0))
             else (atan2 (- (m!1!2)) (m!1!1), atan2 (- (m!2!0)) cy, 0))"
proof -
  have len: "3 \<le> length m"
    using shape by auto
  have rows: "length (m ! r) = length m" if "r < length m" for r
    using square that by (simp add: list_all_length)
  have hd_m: "hd m = m ! 0"
    using len by (cases m) auto
  have "0 < length m"
    using len by linarith
  from rows [OF this] have "length (hd m) = length m"
    by (simp add: hd_m)
  then have ragged: "list_all (\<lambda>row. length row = length (hd m)) m"
    using square by simp
  have lenM: "length (map (take 3) (take 3 m)) = 3"
    using len by simp
  have hdM: "length (hd (map (take 3) (take 3 m))) = 3"
    using len rows [of 0] by (cases m) auto
  have entry: "map (take 3) (take 3 m) ! r ! c = m ! r ! c" if "r < 3" "c < 3" for r c
    using that len rows [of r] by (intro slice_entry) auto
  show ?thesis
    unfolding euler_from_matrix_def Let_def
    by (simp only: ragged lenM hdM entry EPS_def) simp
qed

theorem euler_from_matrix_contract_witness:
  "(length [[0, - 1, 0], [1, 0, 0], [0, 0, 1 :: real]] = 3
      \<or> length [[0, - 1, 0], [1, 0, 0], [0, 0, 1 :: real]] = 4)
   \<and> list_all (\<lambda>row. length row = length [[0, - 1, 0], [1, 0, 0], [0, 0, 1 :: real]])
        [[0, - 1, 0], [1, 0, 0], [0, 0, 1]]
   \<and> euler_from_matrix [[0, - 1, 0], [1, 0, 0], [0, 0, 1]] = Inr (0, 0, pi / 2)"
  using euler_from_matrix_contract [of "[[0, - 1, 0], [1, 0, 0], [0, 0, 1]]"]
  by (simp add: atan2_def)

subsection \<open>Errors for objects of the wrong kind\<close>

lemma quaternion_matrix_shape:
  "\<exists>a b c d e f g h i. quaternion_matrix q = [[a, b, c, 0], [d, e, f, 0], [g, h, i, 0], [0, 0, 0, 1]]"
  by (simp add: quaternion_matrix_def Let_def identity_4)

lemma rpy_from_quaternion_total: "\<exists>rpy. rpy_from_quaternion q = Inr rpy"
proof -
  obtain a b c d e f g h i where
    "quaternion_matrix q = [[a, b, c, 0], [d, e, f, 0], [g, h, i, 0], [0, 0, 0, 1]]"
    using quaternion_matrix_shape by blast
  then show ?thesis
    by (simp add: rpy_from_quaternion_def euler_from_matrix_def Let_def)
qed

lemma urdf_origin_from_placement_total:
  "\<exists>a. urdf_origin_from_placement p = Inr (Element ''origin'' a [])"
proof -
  obtain rpy where "rpy_from_quaternion (Rotation p) = Inr rpy"
    using rpy_from_quaternion_total by blast
  then show ?thesis
    by (simp add: urdf_origin_from_placement_def split: prod.splits)
qed

text \<open>
  C9: each centring function and each emitter of a primitive raises the invalid-argument
  error (a RuntimeError) exactly when its object is not of the expected kind: it raises
  it for every other object, and never for a box, cylinder or sphere respectively.
\<close>

theorem invalid_kind_errors:
  "(urdf_box_placement_from_object h obj popt = Inl RuntimeError) = (\<not> is_box h obj)
   \<and> (urdf_cylinder_placement_from_object h obj popt = Inl RuntimeError) = (\<not> is_cylinder h obj)
   \<and> (urdf_sphere_placement_from_object h obj popt = Inl RuntimeError) = (\<not> is_sphere h obj)
   \<and> (urdf_generic_from_box h obj generic p ign = Inl RuntimeError) = (\<not> is_box h obj)
   \<and> (urdf_generic_from_cylinder h obj generic p ign = Inl RuntimeError) = (\<not> is_cylinder h obj)
   \<and> (urdf_generic_from_sphere h obj generic p ign = Inl RuntimeError) = (\<not> is_sphere h obj)"
proof -
  have box: "(urdf_box_placement_from_object h obj popt = Inl RuntimeError) = (\<not> is_box h obj)"
    for popt
    by (simp add: urdf_box_placement_from_object_def Let_def)
  have cyl: "(urdf_cylinder_placement_from_object h obj popt = Inl RuntimeError) = (\<not> is_cylinder h obj)"
    for popt
    by (simp add: urdf_cylinder_placement_from_object_def Let_def)
  have sph: "(urdf_sphere_placement_from_object h obj popt = Inl RuntimeError) = (\<not> is_sphere h obj)"
    by (simp add: urdf_sphere_placement_from_object_def Let_def)
  have gbox: "(urdf_generic_from_box h obj generic p ign = Inl RuntimeError) = (\<not> is_box h obj)"
  proof (cases "is_box h obj")
    case True
    obtain c where c: "urdf_box_placement_from_object h obj
        (Some (if \<not> ign then Placement_mult p (Placement obj) else p)) = Inr c"
      using True by (simp add: urdf_box_placement_from_object_def Let_def)
    obtain a where "urdf_origin_from_placement c = Inr (Element ''origin'' a [])"
      using urdf_origin_from_placement_total by blast
    with True c show ?thesis
      by (simp add: urdf_generic_from_box_def Let_def)
  next
    case False
    then show ?thesis
      by (simp add: urdf_generic_from_box_def)
  qed
  have gcyl: "(urdf_generic_from_cylinder h obj generic p ign = Inl RuntimeError) = (\<not> is_cylinder h obj)"
  proof (cases "is_cylinder h obj")
    case True
    obtain c where c: "urdf_cylinder_placement_from_object h obj
        (Some (if \<not> ign then Placement_mult p (Placement obj) else p)) = Inr c"
      using True by (simp add: urdf_cylinder_placement_from_object_def Let_def)
    obtain a where "urdf_origin_from_placement c = Inr (Element ''origin'' a [])"
      using urdf_origin_from_placement_total by blast
    with True c show ?thesis
      by (simp add: urdf_generic_from_cylinder_def Let_def)
  next
    case False
    then show ?thesis
      by (simp add: urdf_generic_from_cylinder_def)
  qed
  have gsph: "(urdf_generic_from_sphere h obj generic p ign = Inl RuntimeError) = (\<not> is_sphere h obj)"
    by (simp add: urdf_generic_from_sphere_def Let_def)
  from box cyl sph gbox gcyl gsph show ?thesis
    by simp
qed

subsection \<open>Validation of a group\<close>

lemma export_group_with_lcs_loop_acc:
  "export_group_with_lcs_loop h links ws =
     ws @ concat (map (\<lambda>l. if \<not> is_fclink h l then [Warn_not_a_link (label_or h l)]
                           else if \<not> (is_lcs h (LinkedObject h l) \<or> is_part h (LinkedObject h l))
                                then [Warn_not_lcs_or_part (label_or h l)]
                                else []) links)"
  by (induction links arbitrary: ws) (simp_all add: Let_def)

text \<open>
  C10: \<open>export_group_with_lcs\<close> raises the invalid-argument error (a ValueError) exactly
  when its input is not a group. For a group it returns True and never False, however
  many children are not links or link to something that is neither a coordinate system
  nor a part: each such child yields one warning and is skipped.
\<close>

theorem export_group_with_lcs_result:
  "(export_group_with_lcs h g package_path = Inl ValueError) = (\<not> is_group h g)
   \<and> (\<forall>ws. export_group_with_lcs h g package_path \<noteq> Inr (False, ws))
   \<and> (is_group h g \<longrightarrow>
        export_group_with_lcs h g package_path =
          Inr (True,
               concat (map (\<lambda>l. if \<not> is_fclink h l then [Warn_not_a_link (label_or h l)]
                                else if \<not> (is_lcs h (LinkedObject h l) \<or> is_part h (LinkedObject h l))
                                     then [Warn_not_lcs_or_part (label_or h l)]
                                     else []) (Group h g))))"
  by (simp add: export_group_with_lcs_def Let_def export_group_with_lcs_loop_acc)

theorem export_group_with_lcs_result_witness:
  "is_group example_host (example_object ''App::DocumentObjectGroup'' ''Joints'')
   \<and> export_group_with_lcs example_host (example_object ''App::DocumentObjectGroup'' ''Joints'') ''pkg''
       = Inr (True, [Warn_not_a_link ''Base'', Warn_not_lcs_or_part ''Loose''])"
  using export_group_with_lcs_result
    [of example_host "example_object ''App::DocumentObjectGroup'' ''Joints''" "''pkg''"]
  by (simp add: example_host_def example_object_def)

subsection \<open>Centre placements\<close>

lemma Rotation_mult_identity:
  assumes "dot (array4 q) (array4 q) = 1"
  shows "Rotation_mult q Rotation_identity = q"
proof -
  obtain x y z w where q: "q = (x, y, z, w)"
    by (cases q) auto
  from assms have "x * x + y * y + z * z + w * w = 1"
    by (simp add: q dot_def array4_def)
  then show ?thesis
    by (simp add: q Rotation_mult_def Rotation_identity_def normalize_def)
qed

lemma placement_or_cases:
  "placement_or popt other = (case popt of None \<Rightarrow> other | Some p \<Rightarrow> p)"
  by (simp add: placement_or_def not_placement_def Placement_bool_def split: option.splits)

text \<open>
  C3: let \<open>P\<close> be the supplied placement, or the object's own placement when none is
  supplied. The centre placement of a box is \<open>P\<close> composed with the translation by
  \<open>(Length, Width, Height) / 2\<close>, with the rotation of \<open>P\<close>; that of a cylinder is \<open>P\<close>
  composed with the translation by \<open>(0, 0, Height / 2)\<close>; that of a sphere is \<open>P\<close>.
  The rotation of \<open>P\<close> is a unit quaternion, as the host keeps it.
\<close>

theorem center_placements:
  assumes P: "P = (case popt of None \<Rightarrow> Placement obj | Some p \<Rightarrow> p)"
    and unit: "dot (array4 (Rotation P)) (array4 (Rotation P)) = 1"
  shows "(is_box h obj \<longrightarrow>
            urdf_box_placement_from_object h obj popt =
              Inr (Placement_mult P
                     \<lparr>Base = (Length obj / 2, Width obj / 2, Height obj / 2),
                      Rotation = Rotation_identity\<rparr>)
            \<and> urdf_box_placement_from_object h obj popt =
              Inr \<lparr>Base = Vector_add (Base P)
                            (multVec (Rotation P) (Length obj / 2, Width obj / 2, Height obj / 2)),
                   Rotation = Rotation P\<rparr>)
       \<and> (is_cylinder h obj \<longrightarrow>
            urdf_cylinder_placement_from_object h obj popt =
              Inr (Placement_mult P \<lparr>Base = (0, 0, Height obj / 2), Rotation = Rotation_identity\<rparr>)
            \<and> urdf_cylinder_placement_from_object h obj popt =
              Inr \<lparr>Base = Vector_add (Base P) (multVec (Rotation P) (0, 0, Height obj / 2)),
                   Rotation = Rotation P\<rparr>)
       \<and> (is_sphere h obj \<longrightarrow> urdf_sphere_placement_from_object h obj popt = Inr P)"
proof -
  have por: "placement_or popt (Placement obj) = P"
    by (simp add: placement_or_cases P)
  have rot: "Rotation_mult (Rotation P) Rotation_identity = Rotation P"
    using unit by (rule Rotation_mult_identity)
  have box: "urdf_box_placement_from_object h obj popt =
      Inr (Placement_mult P \<lparr>Base = (Length obj / 2, Width obj / 2, Height obj / 2),
                             Rotation = Rotation_identity\<rparr>)" if "is_box h obj"
    using that by (simp add: urdf_box_placement_from_object_def Let_def por Vector_div_def)
  have cyl: "urdf_cylinder_placement_from_object h obj popt =
      Inr (Placement_mult P \<lparr>Base = (0, 0, Height obj / 2), Rotation = Rotation_identity\<rparr>)"
    if "is_cylinder h obj"
    using that by (simp add: urdf_cylinder_placement_from_object_def Let_def por)
  have sph: "urdf_sphere_placement_from_object h obj popt = Inr P" if "is_sphere h obj"
    using that by (simp add: urdf_sphere_placement_from_object_def Let_def por)
  have mult: "Placement_mult P \<lparr>Base = t, Rotation = Rotation_identity\<rparr> =
      \<lparr>Base = Vector_add (Base P) (multVec (Rotation P) t), Rotation = Rotation P\<rparr>" for t
    by (simp add: Placement_mult_def rot)
  show ?thesis
    using box cyl sph by (simp add: mult)
qed

theorem center_placements_witness:
  "dot (array4 (Rotation (Placement (example_object ''Part::Box'' ''Base''))))
       (array4 (Rotation (Placement (example_object ''Part::Box'' ''Base'')))) = 1
   \<and> is_box example_host (example_object ''Part::Box'' ''Base'')
   \<and> urdf_box_placement_from_object example_host (example_object ''Part::Box'' ''Base'') None =
        Inr \<lparr>Base = (1, 2, 3), Rotation = (0, 0, 0, 1)\<rparr>
   \<and> is_cylinder example_host (example_object ''Part::Cylinder'' ''Axle'')
   \<and> urdf_cylinder_placement_from_object example_host (example_object ''Part::Cylinder'' ''Axle'')
        (Some \<lparr>Base = (10, 20, 30), Rotation = (1, 0, 0, 0)\<rparr>) =
        Inr \<lparr>Base = (10, 20, 27), Rotation = (1, 0, 0, 0)\<rparr>
   \<and> is_sphere example_host (example_object ''Part::Sphere'' ''Ball'')
   \<and> urdf_sphere_placement_from_object example_host (example_object ''Part::Sphere'' ''Ball'')
        (Some \<lparr>Base = (10, 20, 30), Rotation = (1, 0, 0, 0)\<rparr>) =
        Inr \<lparr>Base = (10, 20, 30), Rotation = (1, 0, 0, 0)\<rparr>"
proof -
  let ?box = "example_object ''Part::Box'' ''Base''"
  let ?cyl = "example_object ''Part::Cylinder'' ''Axle''"
  let ?sph = "example_object ''Part::Sphere'' ''Ball''"
  let ?p = "\<lparr>Base = (10, 20, 30), Rotation = (1, 0, 0, 0)\<rparr>"
  have kinds: "is_box example_host ?box" "is_cylinder example_host ?cyl"
    "is_sphere example_host ?sph"
    by (simp_all add: example_host_def example_object_def)
  have unit_box: "dot (array4 (Rotation (Placement ?box))) (array4 (Rotation (Placement ?box))) = 1"
    by (simp add: example_object_def Placement_identity_def Rotation_identity_def dot_def array4_def)
  have unit_p: "dot (array4 (Rotation ?p)) (array4 (Rotation ?p)) = 1"
    by (simp add: dot_def array4_def)
  have P_box: "Placement ?box = (case None of None \<Rightarrow> Placement ?box | Some p \<Rightarrow> p)"
    by simp
  have P_p: "?p = (case Some ?p of None \<Rightarrow> Placement obj | Some p \<Rightarrow> p)" for obj :: DO
    by simp
  have "urdf_box_placement_from_object example_host ?box None =
      Inr \<lparr>Base = Vector_add (Base (Placement ?box))
                    (multVec (Rotation (Placement ?box))
                       (Length ?box / 2, Width ?box / 2, Height ?box / 2)),
           Rotation = Rotation (Placement ?box)\<rparr>"
    using kinds(1) center_placements [where h = example_host, OF P_box unit_box]
    by blast
  then have box: "urdf_box_placement_from_object example_host ?box None =
      Inr \<lparr>Base = (1, 2, 3), Rotation = (0, 0, 0, 1)\<rparr>"
    by (simp add: example_object_def Placement_identity_def Rotation_identity_def
        Vector_add_def multVec_def)
  have "urdf_cylinder_placement_from_object example_host ?cyl (Some ?p) =
      Inr \<lparr>Base = Vector_add (Base ?p) (multVec (Rotation ?p) (0, 0, Height ?cyl / 2)),
           Rotation = Rotation ?p\<rparr>"
    using kinds(2) center_placements [where h = example_host, OF P_p unit_p]
    by blast
  then have cyl: "urdf_cylinder_placement_from_object example_host ?cyl (Some ?p) =
      Inr \<lparr>Base = (10, 20, 27), Rotation = (1, 0, 0, 0)\<rparr>"
    by (simp add: example_object_def Vector_add_def multVec_def)
  have sph: "urdf_sphere_placement_from_object example_host ?sph (Some ?p) = Inr ?p"
    using kinds(3) center_placements [where h = example_host, OF P_p unit_p]
    by blast
  from kinds unit_box box cyl sph show ?thesis
    by simp
qed

subsection \<open>Children of the visual and collision elements\<close>

lemma urdf_generic_from_box_children:
  assumes "is_box h box"
  shows "\<exists>a. urdf_generic_from_box h box generic p ign =
     Inr (Element generic []
            [Element ''origin'' a [],
             urdf_geometry_box (getValueAs_m (Length box)) (getValueAs_m (Width box))
               (getValueAs_m (Height box))])"
proof -
  obtain c where c: "urdf_box_placement_from_object h box
      (Some (if \<not> ign then Placement_mult p (Placement box) else p)) = Inr c"
    using assms by (simp add: urdf_box_placement_from_object_def Let_def)
  obtain a where "urdf_origin_from_placement c = Inr (Element ''origin'' a [])"
    using urdf_origin_from_placement_total by blast
  with assms c show ?thesis
    by (simp add: urdf_generic_from_box_def Let_def)
qed

lemma urdf_generic_from_cylinder_children:
  assumes "is_cylinder h cyl"
  shows "\<exists>a. urdf_generic_from_cylinder h cyl generic p ign =
     Inr (Element generic []
            [Element ''origin'' a [],
             urdf_geometry_cylinder (getValueAs_m (Radius cyl)) (getValueAs_m (Height cyl))])"
proof -
  obtain c where c: "urdf_cylinder_placement_from_object h cyl
      (Some (if \<not> ign then Placement_mult p (Placement cyl) else p)) = Inr c"
    using assms by (simp add: urdf_cylinder_placement_from_object_def Let_def)
  obtain a where "urdf_origin_from_placement c = Inr (Element ''origin'' a [])"
    using urdf_origin_from_placement_total by blast
  with assms c show ?thesis
    by (simp add: urdf_generic_from_cylinder_def Let_def)
qed

text \<open>
  C1: the element of a box or of a cylinder has an \<open>origin\<close> child followed by a
  \<open>geometry\<close> child (the two lemmas above). The element of a sphere has the \<open>geometry\<close>
  child only: for the sphere \<open>Ball\<close> of radius 5 mm, with the supplied placement at
  \<open>(10, 20, 30)\<close>, the visual element is \<open><visual><geometry><sphere radius=0.005/></geometry></visual>\<close>,
  and the supplied placement appears nowhere in it.
\<close>

theorem sphere_element_without_origin:
  "urdf_visual_from_sphere example_host (example_object ''Part::Sphere'' ''Ball'')
     \<lparr>Base = (10, 20, 30), Rotation = (0, 0, 0, 1)\<rparr> False =
   Inr (Element ''visual'' []
          [Element ''geometry'' [] [Element ''sphere'' [(''radius'', [Float None (5 / 1000)])] []]])
   \<and> (case urdf_visual_from_sphere example_host (example_object ''Part::Sphere'' ''Ball'')
              \<lparr>Base = (10, 20, 30), Rotation = (0, 0, 0, 1)\<rparr> False of
         Inl e \<Rightarrow> []
       | Inr e \<Rightarrow> map tag (children e)) = [''geometry'']"
  by (simp add: urdf_visual_from_sphere_def urdf_generic_from_sphere_def Let_def
      urdf_geometry_sphere_def getValueAs_m_def example_host_def example_object_def)

subsection \<open>The origin element\<close>

text \<open>
  C6, as amended: the \<open>origin\<close> element of a placement \<open>p\<close> has an \<open>xyz\<close> attribute
  holding the translation of \<open>p\<close> divided by 1000 (millimetres to metres), each of its
  three values written with 6 significant digits, and an \<open>rpy\<close> attribute holding the
  roll, pitch and yaw of the rotation of \<open>p\<close>, each written in full, with no rounding.
\<close>

theorem urdf_origin_from_placement_attributes:
  "\<exists>r0 r1 r2.
     rpy_from_quaternion (Rotation p) = Inr (r0, r1, r2)
     \<and> urdf_origin_from_placement p =
         Inr (Element ''origin''
                [(''xyz'', [Float (Some 6) (fst (Base p) / 1000), Str '' '',
                            Float (Some 6) (fst (snd (Base p)) / 1000), Str '' '',
                            Float (Some 6) (snd (snd (Base p)) / 1000)]),
                 (''rpy'', [Float None r0, Str '' '', Float None r1, Str '' '', Float None r2])]
                [])"
proof -
  obtain rpy where "rpy_from_quaternion (Rotation p) = Inr rpy"
    using rpy_from_quaternion_total by blast
  moreover obtain r0 r1 r2 where "rpy = (r0, r1, r2)"
    by (cases rpy) auto
  moreover obtain x y z where "Base p = (x, y, z)"
    by (cases "Base p") auto
  ultimately show ?thesis
    by (simp add: urdf_origin_from_placement_def Vector_mul_def)
qed

lemma quarter_turn_matrix:
  "quaternion_matrix (0, 0, sqrt 2 / 2, sqrt 2 / 2) =
     [[0, - 1, 0, 0], [1, 0, 0, 0], [0, 0, 1, 0], [0, 0, 0, 1]]"
proof -
  have nq: "dot (take 4 (array4 (0, 0, sqrt 2 / 2, sqrt 2 / 2)))
      (take 4 (array4 (0, 0, sqrt 2 / 2, sqrt 2 / 2))) = 1"
    by (simp add: dot_array4)
  have "\<not> (1::real) < EPS"
    by (simp add: EPS_def)
  then show ?thesis
    unfolding quaternion_matrix_def Let_def nq
    by (simp add: array4_def outer_def)
qed

lemma quarter_turn_rpy:
  "rpy_from_quaternion (0, 0, sqrt 2 / 2, sqrt 2 / 2) = Inr (0, 0, pi / 2)"
  by (simp add: rpy_from_quaternion_def quarter_turn_matrix euler_from_matrix_def Let_def
      EPS_def atan2_def)

text \<open>
  The claim as stated, that the three \<open>rpy\<close> values too are rounded to 6 significant
  digits, fails: for a quarter turn about the z axis the yaw is written as \<open>\<pi> / 2\<close> in
  full.
\<close>

theorem urdf_origin_rpy_rounded_counterexample:
  "urdf_origin_from_placement \<lparr>Base = (1000, 2000, 3000), Rotation = (0, 0, sqrt 2 / 2, sqrt 2 / 2)\<rparr> =
     Inr (Element ''origin''
            [(''xyz'', [Float (Some 6) 1, Str '' '', Float (Some 6) 2, Str '' '', Float (Some 6) 3]),
             (''rpy'', [Float None 0, Str '' '', Float None 0, Str '' '', Float None (pi / 2)])]
            [])
   \<and> \<not> list_all (\<lambda>pc. case pc of Str s \<Rightarrow> True | Float prec v \<Rightarrow> prec = Some 6)
         [Float None 0, Str '' '', Float None 0, Str '' '', Float None (pi / 2)]"
  by (simp add: urdf_origin_from_placement_def quarter_turn_rpy Vector_mul_def)

subsection \<open>The dispatcher\<close>

lemma urdf_generic_mesh_children:
  "\<exists>a. urdf_generic_mesh h obj mesh_name package_name generic p =
     Inr (Element generic []
            [Comment (xml_comment h (Label obj)), Element ''origin'' a [],
             urdf_geometry_mesh mesh_name package_name])"
proof -
  obtain a where "urdf_origin_from_placement p = Inr (Element ''origin'' a [])"
    using urdf_origin_from_placement_total by blast
  then show ?thesis
    by (simp add: urdf_generic_mesh_def Placement_bool_def)
qed

lemma urdf_generic_from_leaf_primitive:
  assumes "\<not> is_mesh_leaf h leaf"
  shows "\<exists>x tp. urdf_generic_from_leaf h obj generic pn pl leaf =
     Inr (\<lparr>xml = x, object = linked_leaf h leaf, placement = tp, mesh_filename = []\<rparr>, pn, [])"
proof -
  obtain subobj subname where leaf: "leaf = (subobj, subname)"
    by (cases leaf) auto
  obtain lo lm where lo: "getLinkedObject_matrix h subobj = (lo, lm)"
    by (cases "getLinkedObject_matrix h subobj") auto
  let ?tp = "if not_placement pl then Placement_of_Matrix h lm
             else Placement_mult (placement_or pl Placement_identity) (Placement_of_Matrix h lm)"
  consider (box) "is_box h lo" | (sphere) "\<not> is_box h lo" "is_sphere h lo"
    | (cyl) "\<not> is_box h lo" "\<not> is_sphere h lo" "is_cylinder h lo"
    using assms by (auto simp: leaf lo)
  then show ?thesis
  proof cases
    case box
    obtain a where "urdf_generic_from_box h lo generic ?tp True =
        Inr (Element generic [] [Element ''origin'' a [],
          urdf_geometry_box (getValueAs_m (Length lo)) (getValueAs_m (Width lo))
            (getValueAs_m (Height lo))])"
      using urdf_generic_from_box_children [OF box] by blast
    with box show ?thesis
      by (simp add: urdf_generic_from_leaf_def leaf lo Let_def)
  next
    case sphere
    then show ?thesis
      by (simp add: urdf_generic_from_leaf_def leaf lo Let_def urdf_generic_from_sphere_def)
  next
    case cyl
    obtain a where "urdf_generic_from_cylinder h lo generic ?tp True =
        Inr (Element generic [] [Element ''origin'' a [],
          urdf_geometry_cylinder (getValueAs_m (Radius lo)) (getValueAs_m (Height lo))])"
      using urdf_generic_from_cylinder_children [OF cyl(3)] by blast
    with cyl show ?thesis
      by (simp add: urdf_generic_from_leaf_def leaf lo Let_def)
  qed
qed

lemma urdf_generic_from_leaf_mesh:
  assumes "is_mesh_leaf h leaf"
  shows "\<exists>a tp. urdf_generic_from_leaf h obj generic pn pl leaf =
     Inr (\<lparr>xml = Element generic []
                  [Comment (xml_comment h (Label (linked_leaf h leaf))), Element ''origin'' a [],
                   urdf_geometry_mesh (get_valid_filename h (Label (getLinkedObject h obj)) @ ''.dae'')
                     (package_or_fallback pn)],
           object = linked_leaf h leaf, placement = tp,
           mesh_filename = get_valid_filename h (Label (getLinkedObject h obj)) @ ''.dae''\<rparr>,
          Some (package_or_fallback pn),
          if not_str pn then [Warn_package_name_empty] else [])"
proof -
  obtain subobj subname where leaf: "leaf = (subobj, subname)"
    by (cases leaf) auto
  obtain lo lm where lo: "getLinkedObject_matrix h subobj = (lo, lm)"
    by (cases "getLinkedObject_matrix h subobj") auto
  let ?tp = "if not_placement pl then Placement_of_Matrix h lm
             else Placement_mult (placement_or pl Placement_identity) (Placement_of_Matrix h lm)"
  let ?fn = "get_valid_filename h (Label (getLinkedObject h obj)) @ ''.dae''"
  obtain a where "urdf_generic_mesh h lo ?fn (package_or_fallback pn) generic ?tp =
      Inr (Element generic [] [Comment (xml_comment h (Label lo)), Element ''origin'' a [],
             urdf_geometry_mesh ?fn (package_or_fallback pn)])"
    using urdf_generic_mesh_children by blast
  with assms show ?thesis
    by (simp add: urdf_generic_from_leaf_def leaf lo Let_def)
qed


lemma package_or_fallback_idem:
  "\<not> not_str (Some (package_or_fallback pn))"
  "package_or_fallback (Some (package_or_fallback pn)) = package_or_fallback pn"
  by (auto simp: not_str_def package_or_fallback_def split: option.splits)

lemma urdf_generic_from_leafs_result:
  "\<exists>recs. urdf_generic_from_leafs h obj generic pl leafs pn out warns =
       Inr (out @ recs,
            warns @ (if not_str pn \<and> list_ex (is_mesh_leaf h) leafs
                     then [Warn_package_name_empty] else []))
     \<and> list_all2 (leaf_record h obj generic (package_or_fallback pn)) leafs recs"
proof (induction leafs arbitrary: pn out warns)
  case Nil
  then show ?case by simp
next
  case (Cons leaf leafs)
  show ?case
  proof (cases "is_mesh_leaf h leaf")
    case True
    let ?fn = "get_valid_filename h (Label (getLinkedObject h obj)) @ ''.dae''"
    let ?pkg = "package_or_fallback pn"
    let ?ws = "if not_str pn then [Warn_package_name_empty] else []"
    from urdf_generic_from_leaf_mesh [OF True] obtain a tp where
      step: "urdf_generic_from_leaf h obj generic pn pl leaf =
        Inr (\<lparr>xml = Element generic []
                  [Comment (xml_comment h (Label (linked_leaf h leaf))), Element ''origin'' a [],
                   urdf_geometry_mesh ?fn ?pkg],
              object = linked_leaf h leaf, placement = tp, mesh_filename = ?fn\<rparr>,
             Some ?pkg, ?ws)"
      by blast
    let ?r = "\<lparr>xml = Element generic []
                  [Comment (xml_comment h (Label (linked_leaf h leaf))), Element ''origin'' a [],
                   urdf_geometry_mesh ?fn ?pkg],
              object = linked_leaf h leaf, placement = tp, mesh_filename = ?fn\<rparr>"
    have "\<exists>recs. urdf_generic_from_leafs h obj generic pl leafs (Some ?pkg) (out @ [?r]) (warns @ ?ws) =
          Inr ((out @ [?r]) @ recs, (warns @ ?ws) @ [])
        \<and> list_all2 (leaf_record h obj generic ?pkg) leafs recs"
      using Cons.IH [of "Some ?pkg" "out @ [?r]" "warns @ ?ws"]
      unfolding package_or_fallback_idem(2) by (simp add: package_or_fallback_idem(1))
    then obtain recs where
      rest: "urdf_generic_from_leafs h obj generic pl leafs (Some ?pkg) (out @ [?r]) (warns @ ?ws) =
          Inr ((out @ [?r]) @ recs, (warns @ ?ws) @ [])"
      and recs: "list_all2 (leaf_record h obj generic ?pkg) leafs recs"
      by blast
    have r: "leaf_record h obj generic ?pkg leaf ?r"
      using True by simp
    have "urdf_generic_from_leafs h obj generic pl (leaf # leafs) pn out warns =
        Inr (out @ ?r # recs, warns @ ?ws)"
      using step rest by simp
    moreover have "list_all2 (leaf_record h obj generic ?pkg) (leaf # leafs) (?r # recs)"
      using r recs by simp
    moreover have "(if not_str pn \<and> list_ex (is_mesh_leaf h) (leaf # leafs)
        then [Warn_package_name_empty] else []) = ?ws"
      using True by simp
    ultimately show ?thesis
      by (intro exI [of _ "?r # recs"]) (simp only: simp_thms)
  next
    case False
    from urdf_generic_from_leaf_primitive [OF False] obtain x tp where
      step: "urdf_generic_from_leaf h obj generic pn pl leaf =
        Inr (\<lparr>xml = x, object = linked_leaf h leaf, placement = tp, mesh_filename = []\<rparr>, pn, [])"
      by blast
    let ?r = "\<lparr>xml = x, object = linked_leaf h leaf, placement = tp, mesh_filename = []\<rparr>"
    let ?ws = "if not_str pn \<and> list_ex (is_mesh_leaf h) leafs then [Warn_package_name_empty] else []"
    from Cons.IH [of pn "out @ [?r]" warns] obtain recs where
      rest: "urdf_generic_from_leafs h obj generic pl leafs pn (out @ [?r]) warns =
          Inr ((out @ [?r]) @ recs, warns @ ?ws)"
      and recs: "list_all2 (leaf_record h obj generic (package_or_fallback pn)) leafs recs"
      by blast
    have r: "leaf_record h obj generic (package_or_fallback pn) leaf ?r"
      using False by simp
    have "urdf_generic_from_leafs h obj generic pl (leaf # leafs) pn out warns =
        Inr (out @ ?r # recs, warns @ ?ws)"
      using step rest by simp
    moreover have "list_all2 (leaf_record h obj generic (package_or_fallback pn)) (leaf # leafs)
        (?r # recs)"
      using r recs by simp
    moreover have "(if not_str pn \<and> list_ex (is_mesh_leaf h) (leaf # leafs)
        then [Warn_package_name_empty] else []) = ?ws"
      using False by auto
    ultimately show ?thesis
      by (intro exI [of _ "?r # recs"]) (simp only: simp_thms)
  qed
qed

text \<open>
  C8: when no package name is supplied (\<open>None\<close> or the empty string) and a leaf is a
  mesh leaf, the dispatcher does not raise: it returns one export record per leaf, in
  the order of the leaves, emits exactly one warning, and every mesh leaf refers to its
  mesh under the fallback package name \<open>package\<close>.
\<close>

theorem mesh_without_package_name:
  assumes "package_name = None \<or> package_name = Some []"
    and "list_ex (is_mesh_leaf h) (get_leafs_and_subnames h obj)"
  shows "\<exists>recs. urdf_generic_from_object h obj generic package_name pl =
             Inr (recs, [Warn_package_name_empty])
           \<and> length recs = length (get_leafs_and_subnames h obj)
           \<and> list_all2 (leaf_record h obj generic ''package'') (get_leafs_and_subnames h obj) recs"
proof -
  have n: "not_str package_name"
    using assms(1) by (auto simp: not_str_def)
  have pk: "package_or_fallback package_name = ''package''"
    using n by (simp add: package_or_fallback_def)
  have "\<exists>recs. urdf_generic_from_leafs h obj generic pl (get_leafs_and_subnames h obj)
          package_name [] [] = Inr (recs, [Warn_package_name_empty])
      \<and> list_all2 (leaf_record h obj generic ''package'') (get_leafs_and_subnames h obj) recs"
    using urdf_generic_from_leafs_result
      [of h obj generic pl "get_leafs_and_subnames h obj" package_name "[]" "[]"]
    unfolding pk using n assms(2) by simp
  then obtain recs where
    "urdf_generic_from_leafs h obj generic pl (get_leafs_and_subnames h obj) package_name [] [] =
       Inr (recs, [Warn_package_name_empty])"
    and recs: "list_all2 (leaf_record h obj generic ''package'') (get_leafs_and_subnames h obj) recs"
    by blast
  moreover from recs have "length recs = length (get_leafs_and_subnames h obj)"
    by (simp add: list_all2_lengthD)
  ultimately show ?thesis
    by (auto simp: urdf_generic_from_object_def)
qed


lemma example_robot_leafs:
  "get_leafs_and_subnames example_host (example_object ''App::Part'' ''Robot'') =
     [(example_object ''Part::Box'' ''Base'', ''Base.''),
      (example_object ''Mesh::Feature'' ''Arm'', ''Arm.'')]"
  by (simp add: example_host_def example_object_def)

lemma example_robot_kinds:
  "\<not> is_mesh_leaf example_host (example_object ''Part::Box'' ''Base'', ''Base.'')"
  "is_mesh_leaf example_host (example_object ''Mesh::Feature'' ''Arm'', ''Arm.'')"
  "linked_leaf example_host (example_object ''Mesh::Feature'' ''Arm'', ''Arm.'') =
     example_object ''Mesh::Feature'' ''Arm''"
  "linked_leaf example_host (example_object ''Part::Box'' ''Base'', ''Base.'') =
     example_object ''Part::Box'' ''Base''"
  "get_valid_filename example_host
     (Label (getLinkedObject example_host (example_object ''App::Part'' ''Robot''))) = ''Robot''"
  "xml_comment example_host (Label (example_object ''Mesh::Feature'' ''Arm'')) = ''Arm''"
  by (simp_all add: example_host_def example_object_def)

theorem mesh_without_package_name_witness:
  "(None = None \<or> None = Some [])
   \<and> list_ex (is_mesh_leaf example_host)
        (get_leafs_and_subnames example_host (example_object ''App::Part'' ''Robot''))
   \<and> (\<exists>r1 r2 a.
          urdf_generic_from_object example_host (example_object ''App::Part'' ''Robot'')
            ''visual'' None None = Inr ([r1, r2], [Warn_package_name_empty])
          \<and> object r1 = example_object ''Part::Box'' ''Base''
          \<and> object r2 = example_object ''Mesh::Feature'' ''Arm''
          \<and> xml r2 =
              Element ''visual'' []
                [Comment ''Arm'', Element ''origin'' a [],
                 Element ''geometry'' []
                   [Element ''mesh''
                      [(''filename'', [Str ''package://package/meshes/Robot.dae''])] []]])"
proof -
  let ?robot = "example_object ''App::Part'' ''Robot''"
  have mesh: "list_ex (is_mesh_leaf example_host) (get_leafs_and_subnames example_host ?robot)"
    unfolding example_robot_leafs using example_robot_kinds(2) by simp
  have none: "None = None \<or> None = Some ([] :: string)"
    by simp
  from mesh_without_package_name [OF none mesh, of "''visual''" None] obtain recs where
    res: "urdf_generic_from_object example_host ?robot ''visual'' None None =
        Inr (recs, [Warn_package_name_empty])"
    and recs: "list_all2 (leaf_record example_host ?robot ''visual'' ''package'')
        (get_leafs_and_subnames example_host ?robot) recs"
    by blast
  from recs obtain r1 r2 where r12: "recs = [r1, r2]"
    and r1: "leaf_record example_host ?robot ''visual'' ''package''
        (example_object ''Part::Box'' ''Base'', ''Base.'') r1"
    and r2: "leaf_record example_host ?robot ''visual'' ''package''
        (example_object ''Mesh::Feature'' ''Arm'', ''Arm.'') r2"
    unfolding example_robot_leafs by (auto simp: list_all2_Cons1)
  from r1 have o1: "object r1 = example_object ''Part::Box'' ''Base''"
    using example_robot_kinds(4) by simp
  from r2 example_robot_kinds(2) obtain a where
    o2: "object r2 = example_object ''Mesh::Feature'' ''Arm''"
    and x2: "xml r2 = Element ''visual'' []
        [Comment ''Arm'', Element ''origin'' a [], urdf_geometry_mesh ''Robot.dae'' ''package'']"
    unfolding example_robot_kinds(3,5,6) by auto
  from res r12 o1 o2 x2 none mesh show ?thesis
    by (auto simp: urdf_geometry_mesh_def)
qed

text \<open>
  C7: the mesh file name of a leaf is derived from the label of the object the
  dispatcher was called on, not from the label of the leaf: exporting the part \<open>Robot\<close>,
  whose mesh leaf is labelled \<open>Arm\<close>, records the file name \<open>Robot.dae\<close> for that leaf.
\<close>

theorem mesh_filename_from_root_label:
  "\<exists>r1 r2.
     urdf_visual_from_object example_host (example_object ''App::Part'' ''Robot'')
       (Some ''my_robot'') None = Inr ([r1, r2], [])
     \<and> Label (object r2) = ''Arm''
     \<and> mesh_filename r2 = ''Robot.dae''"
proof -
  let ?robot = "example_object ''App::Part'' ''Robot''"
  have pk: "package_or_fallback (Some ''my_robot'') = ''my_robot''"
    "\<not> not_str (Some ''my_robot'')"
    by (simp_all add: package_or_fallback_def not_str_def)
  have "\<exists>recs. urdf_generic_from_leafs example_host ?robot ''visual'' None
          (get_leafs_and_subnames example_host ?robot) (Some ''my_robot'') [] [] = Inr (recs, [])
      \<and> list_all2 (leaf_record example_host ?robot ''visual'' ''my_robot'')
          (get_leafs_and_subnames example_host ?robot) recs"
    using urdf_generic_from_leafs_result [of example_host ?robot "''visual''" None
        "get_leafs_and_subnames example_host ?robot" "Some ''my_robot''" "[]" "[]"]
    unfolding pk(1) using pk(2) by simp
  then obtain recs where
    res: "urdf_generic_from_leafs example_host ?robot ''visual'' None
          (get_leafs_and_subnames example_host ?robot) (Some ''my_robot'') [] [] = Inr (recs, [])"
    and recs: "list_all2 (leaf_record example_host ?robot ''visual'' ''my_robot'')
        (get_leafs_and_subnames example_host ?robot) recs"
    by blast
  from recs obtain r1 r2 where r12: "recs = [r1, r2]"
    and r2: "leaf_record example_host ?robot ''visual'' ''my_robot''
        (example_object ''Mesh::Feature'' ''Arm'', ''Arm.'') r2"
    unfolding example_robot_leafs by (auto simp: list_all2_Cons1)
  from r2 example_robot_kinds(2) have
    "object r2 = example_object ''Mesh::Feature'' ''Arm''" "mesh_filename r2 = ''Robot.dae''"
    unfolding example_robot_kinds(3,5) by auto
  then have "Label (object r2) = ''Arm''" "mesh_filename r2 = ''Robot.dae''"
    by (simp_all add: example_object_def)
  with res r12 show ?thesis
    by (auto simp: urdf_visual_from_object_def urdf_generic_from_object_def)
qed

subsection \<open>Round trip through roll, pitch and yaw, over the reals\<close>

text \<open>Cosine and sine of \<open>atan2\<close>.\<close>

lemma sqrt_one_plus_div:
  fixes x y :: real
  assumes "x \<noteq> 0"
  shows "sqrt (1 + (y / x)\<^sup>2) = sqrt (x\<^sup>2 + y\<^sup>2) / \<bar>x\<bar>"
proof -
  have "1 + (y / x)\<^sup>2 = (x\<^sup>2 + y\<^sup>2) / x\<^sup>2"
    using assms by (simp add: field_simps power2_eq_square)
  then show ?thesis
    by (simp add: real_sqrt_divide)
qed

lemma cos_atan2:
  assumes "x \<noteq> 0 \<or> y \<noteq> 0"
  shows "cos (atan2 y x) = x / sqrt (x\<^sup>2 + y\<^sup>2)"
proof (cases "x = 0")
  case True
  with assms show ?thesis
    by (simp add: atan2_def)
next
  case False
  then show ?thesis
    by (auto simp: atan2_def cos_arctan sqrt_one_plus_div)
qed

lemma sin_atan2:
  assumes "x \<noteq> 0 \<or> y \<noteq> 0"
  shows "sin (atan2 y x) = y / sqrt (x\<^sup>2 + y\<^sup>2)"
proof (cases "x = 0")
  case True
  with assms show ?thesis
    by (auto simp: atan2_def)
next
  case False
  then show ?thesis
    by (auto simp: atan2_def sin_arctan sqrt_one_plus_div)
qed


text \<open>Products of unit quaternions and their action on vectors.\<close>

lemma unit_quaternion_iff:
  "unit_quaternion (x, y, z, w) = (x * x + y * y + z * z + w * w = 1)"
  by (simp add: dot_def array4_def add.assoc)

lemma normalize_unit:
  assumes "x * x + y * y + z * z + w * w = 1"
  shows "normalize (x, y, z, w) = (x, y, z, w)"
  using assms by (simp add: normalize_def)

lemma hamilton_norm:
  fixes x0 y0 z0 w0 x1 y1 z1 w1 :: real
  shows "(w0 * x1 + x0 * w1 + y0 * z1 - z0 * y1) * (w0 * x1 + x0 * w1 + y0 * z1 - z0 * y1)
       + (w0 * y1 - x0 * z1 + y0 * w1 + z0 * x1) * (w0 * y1 - x0 * z1 + y0 * w1 + z0 * x1)
       + (w0 * z1 + x0 * y1 - y0 * x1 + z0 * w1) * (w0 * z1 + x0 * y1 - y0 * x1 + z0 * w1)
       + (w0 * w1 - x0 * x1 - y0 * y1 - z0 * z1) * (w0 * w1 - x0 * x1 - y0 * y1 - z0 * z1)
       = (x0 * x0 + y0 * y0 + z0 * z0 + w0 * w0) * (x1 * x1 + y1 * y1 + z1 * z1 + w1 * w1)"
  by algebra

lemma Rotation_mult_unit:
  assumes "unit_quaternion (x0, y0, z0, w0)" "unit_quaternion (x1, y1, z1, w1)"
  shows "Rotation_mult (x0, y0, z0, w0) (x1, y1, z1, w1) =
     (w0 * x1 + x0 * w1 + y0 * z1 - z0 * y1,
      w0 * y1 - x0 * z1 + y0 * w1 + z0 * x1,
      w0 * z1 + x0 * y1 - y0 * x1 + z0 * w1,
      w0 * w1 - x0 * x1 - y0 * y1 - z0 * z1)"
proof -
  from assms have "x0 * x0 + y0 * y0 + z0 * z0 + w0 * w0 = 1" "x1 * x1 + y1 * y1 + z1 * z1 + w1 * w1 = 1"
    by (simp_all add: unit_quaternion_iff)
  then have "(w0 * x1 + x0 * w1 + y0 * z1 - z0 * y1) * (w0 * x1 + x0 * w1 + y0 * z1 - z0 * y1)
       + (w0 * y1 - x0 * z1 + y0 * w1 + z0 * x1) * (w0 * y1 - x0 * z1 + y0 * w1 + z0 * x1)
       + (w0 * z1 + x0 * y1 - y0 * x1 + z0 * w1) * (w0 * z1 + x0 * y1 - y0 * x1 + z0 * w1)
       + (w0 * w1 - x0 * x1 - y0 * y1 - z0 * z1) * (w0 * w1 - x0 * x1 - y0 * y1 - z0 * z1) = 1"
    by (simp add: hamilton_norm)
  then show ?thesis
    unfolding Rotation_mult_def prod.case by (rule normalize_unit)
qed

lemma multVec_hamilton:
  "multVec (w0 * x1 + x0 * w1 + y0 * z1 - z0 * y1,
      w0 * y1 - x0 * z1 + y0 * w1 + z0 * x1,
      w0 * z1 + x0 * y1 - y0 * x1 + z0 * w1,
      w0 * w1 - x0 * x1 - y0 * y1 - z0 * z1) v =
   multVec (x0, y0, z0, w0) (multVec (x1, y1, z1, w1) v)"
proof -
  obtain a b c where v: "v = (a, b, c)"
    by (cases v) auto
  show ?thesis
    unfolding v multVec_def prod.case prod.inject
    by (intro conjI; algebra)
qed


lemma degrees_radians: "degrees a * pi / 180 = a"
  by (simp add: degrees_def)

lemma Rotation_axis_angle_xyz:
  "Rotation_axis_angle (1, 0, 0) (degrees a) = (sin (a / 2), 0, 0, cos (a / 2))"
  "Rotation_axis_angle (0, 1, 0) (degrees a) = (0, sin (a / 2), 0, cos (a / 2))"
  "Rotation_axis_angle (0, 0, 1) (degrees a) = (0, 0, sin (a / 2), cos (a / 2))"
  by (simp_all add: Rotation_axis_angle_def Let_def degrees_radians)

lemma half_angle:
  fixes a :: real
  shows "cos (a / 2) * cos (a / 2) - sin (a / 2) * sin (a / 2) = cos a"
    and "2 * (sin (a / 2) * cos (a / 2)) = sin a"
    and "sin (a / 2) * sin (a / 2) + cos (a / 2) * cos (a / 2) = 1"
  using cos_double [of "a / 2"] sin_double [of "a / 2"] sin_cos_squared_add [of "a / 2"]
  by (simp_all add: power2_eq_square)

lemma multVec_axis_poly:
  fixes s c :: real
  assumes "s * s + c * c = 1"
  shows "multVec (s, 0, 0, c) (vx, vy, vz) =
       (vx, (c * c - s * s) * vy - 2 * (s * c) * vz, 2 * (s * c) * vy + (c * c - s * s) * vz)"
    and "multVec (0, s, 0, c) (vx, vy, vz) =
       ((c * c - s * s) * vx + 2 * (s * c) * vz, vy, - (2 * (s * c)) * vx + (c * c - s * s) * vz)"
    and "multVec (0, 0, s, c) (vx, vy, vz) =
       ((c * c - s * s) * vx - 2 * (s * c) * vy, 2 * (s * c) * vx + (c * c - s * s) * vy, vz)"
  unfolding multVec_def prod.case prod.inject
  by (intro conjI; (algebra | (insert assms, algebra)))+

lemma multVec_axis:
  "multVec (sin (a / 2), 0, 0, cos (a / 2)) (vx, vy, vz) =
     (vx, cos a * vy - sin a * vz, sin a * vy + cos a * vz)"
  "multVec (0, sin (a / 2), 0, cos (a / 2)) (vx, vy, vz) =
     (cos a * vx + sin a * vz, vy, - sin a * vx + cos a * vz)"
  "multVec (0, 0, sin (a / 2), cos (a / 2)) (vx, vy, vz) =
     (cos a * vx - sin a * vy, sin a * vx + cos a * vy, vz)"
  unfolding multVec_axis_poly [OF half_angle(3)] half_angle(1,2) by simp_all

lemma unit_axis:
  "unit_quaternion (sin (a / 2), 0, 0, cos (a / 2))"
  "unit_quaternion (0, sin (a / 2), 0, cos (a / 2))"
  "unit_quaternion (0, 0, sin (a / 2), cos (a / 2))"
  using half_angle(3) [of a] by (simp_all add: unit_quaternion_iff)

lemma multVec_rotation_from_rpy:
  "multVec (rotation_from_rpy (r, p, y)) v =
     multVec (0, 0, sin (y / 2), cos (y / 2))
       (multVec (0, sin (p / 2), 0, cos (p / 2))
          (multVec (sin (r / 2), 0, 0, cos (r / 2)) v))"
proof -
  let ?zy = "Rotation_mult (0, 0, sin (y / 2), cos (y / 2)) (0, sin (p / 2), 0, cos (p / 2))"
  obtain x1 y1 z1 w1 where zy: "?zy = (x1, y1, z1, w1)"
    by (cases ?zy) auto
  have zy_eq: "(x1, y1, z1, w1) =
      (cos (y / 2) * 0 + 0 * cos (p / 2) + 0 * 0 - sin (y / 2) * sin (p / 2),
       cos (y / 2) * sin (p / 2) - 0 * 0 + 0 * cos (p / 2) + sin (y / 2) * 0,
       cos (y / 2) * 0 + 0 * sin (p / 2) - 0 * 0 + sin (y / 2) * cos (p / 2),
       cos (y / 2) * cos (p / 2) - 0 * 0 - 0 * sin (p / 2) - sin (y / 2) * 0)"
    unfolding zy [symmetric] by (rule Rotation_mult_unit [OF unit_axis(3) unit_axis(2)])
  have unit_zy: "unit_quaternion (x1, y1, z1, w1)"
    unfolding zy_eq unit_quaternion_iff hamilton_norm
    using unit_axis(3) [of y] unit_axis(2) [of p] by (simp add: unit_quaternion_iff)
  have "multVec (rotation_from_rpy (r, p, y)) v =
      multVec (Rotation_mult (x1, y1, z1, w1) (sin (r / 2), 0, 0, cos (r / 2))) v"
    by (simp add: rotation_from_rpy_def Rotation_axis_angle_xyz zy)
  also have "\<dots> = multVec (x1, y1, z1, w1) (multVec (sin (r / 2), 0, 0, cos (r / 2)) v)"
    unfolding Rotation_mult_unit [OF unit_zy unit_axis(1)] by (rule multVec_hamilton)
  also have "\<dots> = multVec (0, 0, sin (y / 2), cos (y / 2))
       (multVec (0, sin (p / 2), 0, cos (p / 2))
          (multVec (sin (r / 2), 0, 0, cos (r / 2)) v))"
    unfolding zy_eq by (rule multVec_hamilton)
  finally show ?thesis .
qed

text \<open>The matrix of a unit quaternion and the identities of its entries.\<close>

lemma quaternion_matrix_unit:
  assumes "x * x + y * y + z * z + w * w = 1"
  shows "quaternion_matrix (x, y, z, w) =
     [[1 - 2 * (y * y) - 2 * (z * z), 2 * (x * y) - 2 * (z * w), 2 * (x * z) + 2 * (y * w), 0],
      [2 * (x * y) + 2 * (z * w), 1 - 2 * (x * x) - 2 * (z * z), 2 * (y * z) - 2 * (x * w), 0],
      [2 * (x * z) - 2 * (y * w), 2 * (y * z) + 2 * (x * w), 1 - 2 * (x * x) - 2 * (y * y), 0],
      [0, 0, 0, 1]]"
proof -
  have nq: "dot (take 4 (array4 (x, y, z, w))) (take 4 (array4 (x, y, z, w))) = 1"
    using assms by (simp add: dot_array4)
  have eps: "\<not> (1::real) < EPS"
    by (simp add: EPS_def)
  have sq: "a * sqrt 2 * (b * sqrt 2) = 2 * (a * b)" for a b :: real
    by simp
  show ?thesis
    unfolding quaternion_matrix_def Let_def nq
    by (simp add: eps array4_def outer_def sq)
qed


lemma rotation_matrix_identities:
  fixes x y z w :: real
  assumes unit: "x * x + y * y + z * z + w * w = 1"
  defines "m00 \<equiv> 1 - 2 * (y * y) - 2 * (z * z)" and "m01 \<equiv> 2 * (x * y) - 2 * (z * w)"
    and "m02 \<equiv> 2 * (x * z) + 2 * (y * w)" and "m10 \<equiv> 2 * (x * y) + 2 * (z * w)"
    and "m11 \<equiv> 1 - 2 * (x * x) - 2 * (z * z)" and "m12 \<equiv> 2 * (y * z) - 2 * (x * w)"
    and "m20 \<equiv> 2 * (x * z) - 2 * (y * w)" and "m21 \<equiv> 2 * (y * z) + 2 * (x * w)"
    and "m22 \<equiv> 1 - 2 * (x * x) - 2 * (y * y)"
  shows "m00 * m00 + m10 * m10 + m20 * m20 = 1"
    and "m20 * m20 + m21 * m21 + m22 * m22 = 1"
    and "m10 * m10 + m11 * m11 + m12 * m12 = 1"
    and "m01 * (m00 * m00 + m10 * m10) = - (m00 * m20 * m21) - m10 * m22"
    and "m02 * (m00 * m00 + m10 * m10) = - (m00 * m20 * m22) + m10 * m21"
    and "m11 * (m00 * m00 + m10 * m10) = - (m10 * m20 * m21) + m00 * m22"
    and "m12 * (m00 * m00 + m10 * m10) = - (m10 * m20 * m22) - m00 * m21"
    and "m01 = m12 * m20 - m10 * m22"
    and "m02 = m10 * m21 - m11 * m20"
    and "multVec (x, y, z, w) (vx, vy, vz) =
          (m00 * vx + m01 * vy + m02 * vz, m10 * vx + m11 * vy + m12 * vz,
           m20 * vx + m21 * vy + m22 * vz)"
proof -
  note defs = m00_def m01_def m02_def m10_def m11_def m12_def m20_def m21_def m22_def
  show "m00 * m00 + m10 * m10 + m20 * m20 = 1"
    using unit unfolding defs by algebra
  show "m20 * m20 + m21 * m21 + m22 * m22 = 1"
    using unit unfolding defs by algebra
  show "m10 * m10 + m11 * m11 + m12 * m12 = 1"
    using unit unfolding defs by algebra
  show "m01 * (m00 * m00 + m10 * m10) = - (m00 * m20 * m21) - m10 * m22"
    using unit unfolding defs by algebra
  show "m02 * (m00 * m00 + m10 * m10) = - (m00 * m20 * m22) + m10 * m21"
    using unit unfolding defs by algebra
  show "m11 * (m00 * m00 + m10 * m10) = - (m10 * m20 * m21) + m00 * m22"
    using unit unfolding defs by algebra
  show "m12 * (m00 * m00 + m10 * m10) = - (m10 * m20 * m22) - m00 * m21"
    using unit unfolding defs by algebra
  show "m01 = m12 * m20 - m10 * m22"
    using unit unfolding defs by algebra
  show "m02 = m10 * m21 - m11 * m20"
    using unit unfolding defs by algebra
  have "(x * x + w * w - y * y - z * z) * vx + 2 * (x * y - z * w) * vy + 2 * (x * z + y * w) * vz
      = m00 * vx + m01 * vy + m02 * vz"
    using unit unfolding defs by algebra
  moreover have "2 * (x * y + z * w) * vx + (w * w - x * x + y * y - z * z) * vy
      + 2 * (y * z - x * w) * vz = m10 * vx + m11 * vy + m12 * vz"
    using unit unfolding defs by algebra
  moreover have "2 * (x * z - y * w) * vx + 2 * (x * w + y * z) * vy
      + (w * w - x * x - y * y + z * z) * vz = m20 * vx + m21 * vy + m22 * vz"
    using unit unfolding defs by algebra
  ultimately show "multVec (x, y, z, w) (vx, vy, vz) =
          (m00 * vx + m01 * vy + m02 * vz, m10 * vx + m11 * vy + m12 * vz,
           m20 * vx + m21 * vy + m22 * vz)"
    by (simp add: multVec_def)
qed


lemma euler_rotation_entries:
  fixes m00 m01 m02 m10 m11 m12 m20 m21 m22 cy :: real
  assumes cy: "cy * cy = m00 * m00 + m10 * m10" "0 < cy"
    and col: "m00 * m00 + m10 * m10 + m20 * m20 = 1"
    and row: "m20 * m20 + m21 * m21 + m22 * m22 = 1"
    and k01: "m01 * (m00 * m00 + m10 * m10) = - (m00 * m20 * m21) - m10 * m22"
    and k02: "m02 * (m00 * m00 + m10 * m10) = - (m00 * m20 * m22) + m10 * m21"
    and k11: "m11 * (m00 * m00 + m10 * m10) = - (m10 * m20 * m21) + m00 * m22"
    and k12: "m12 * (m00 * m00 + m10 * m10) = - (m10 * m20 * m22) - m00 * m21"
  defines "ax \<equiv> atan2 m21 m22" and "ay \<equiv> atan2 (- m20) cy" and "az \<equiv> atan2 m10 m00"
  shows "multVec (rotation_from_rpy (ax, ay, az)) (vx, vy, vz) =
          (m00 * vx + m01 * vy + m02 * vz, m10 * vx + m11 * vy + m12 * vz,
           m20 * vx + m21 * vy + m22 * vz)"
proof -
  define I where "I = inverse cy"
  have cyI: "cy * I = 1"
    using cy(2) by (simp add: I_def)
  have sq_cy: "sqrt (cy * cy) = cy"
    using cy(2) by simp
  have nz_z: "m00 \<noteq> 0 \<or> m10 \<noteq> 0"
    using cy by auto
  have s_z: "sqrt (m00\<^sup>2 + m10\<^sup>2) = cy"
    using sq_cy by (simp add: cy(1) power2_eq_square)
  have "m22 * m22 + m21 * m21 = cy * cy"
    using cy(1) col row by algebra
  then have s_x: "sqrt (m22\<^sup>2 + m21\<^sup>2) = cy" and nz_x: "m22 \<noteq> 0 \<or> m21 \<noteq> 0"
    using sq_cy cy(2) by (auto simp: power2_eq_square)
  have "cy * cy + (- m20) * (- m20) = 1"
    using cy(1) col by algebra
  then have s_y: "sqrt (cy\<^sup>2 + (- m20)\<^sup>2) = 1"
    by (simp add: power2_eq_square)
  have nz_y: "cy \<noteq> 0 \<or> - m20 \<noteq> 0"
    using cy(2) by simp
  have cz: "cos az = m00 * I" and sz: "sin az = m10 * I"
    unfolding az_def cos_atan2 [OF nz_z] sin_atan2 [OF nz_z] s_z
    by (simp_all add: I_def divide_inverse)
  have cx: "cos ax = m22 * I" and sx: "sin ax = m21 * I"
    unfolding ax_def cos_atan2 [OF nz_x] sin_atan2 [OF nz_x] s_x
    by (simp_all add: I_def divide_inverse)
  have cyy: "cos ay = cy" and sy: "sin ay = - m20"
    unfolding ay_def cos_atan2 [OF nz_y] sin_atan2 [OF nz_y] s_y
    by simp_all
  have c1: "m00 * I * (cy * vx + - m20 * (m21 * I * vy + m22 * I * vz))
        - m10 * I * (m22 * I * vy - m21 * I * vz) = m00 * vx + m01 * vy + m02 * vz"
    using cyI cy(1) k01 k02 by algebra
  have c2: "m10 * I * (cy * vx + - m20 * (m21 * I * vy + m22 * I * vz))
        + m00 * I * (m22 * I * vy - m21 * I * vz) = m10 * vx + m11 * vy + m12 * vz"
    using cyI cy(1) k11 k12 by algebra
  have c3: "- (- m20) * vx + cy * (m21 * I * vy + m22 * I * vz) = m20 * vx + m21 * vy + m22 * vz"
    using cyI by algebra
  show ?thesis
    unfolding multVec_rotation_from_rpy multVec_axis cz sz cx sx cyy sy
    by (simp only: c1 c2 c3)
qed


lemma euler_rotation_entries_gimbal:
  fixes m00 m01 m02 m10 m11 m12 m20 m21 m22 :: real
  assumes zero: "m00 = 0" "m10 = 0"
    and col: "m00 * m00 + m10 * m10 + m20 * m20 = 1"
    and row: "m20 * m20 + m21 * m21 + m22 * m22 = 1"
    and mid: "m10 * m10 + m11 * m11 + m12 * m12 = 1"
    and x01: "m01 = m12 * m20 - m10 * m22"
    and x02: "m02 = m10 * m21 - m11 * m20"
  defines "ax \<equiv> atan2 (- m12) m11" and "ay \<equiv> atan2 (- m20) 0"
  shows "multVec (rotation_from_rpy (ax, ay, 0)) (vx, vy, vz) =
          (m00 * vx + m01 * vy + m02 * vz, m10 * vx + m11 * vy + m12 * vz,
           m20 * vx + m21 * vy + m22 * vz)"
proof -
  have m20: "m20 * m20 = 1"
    using col zero by simp
  then have abs20: "\<bar>m20\<bar> = 1"
    by (metis real_sqrt_abs2 real_sqrt_one)
  have "m21 * m21 + m22 * m22 = 0"
    using row m20 by simp
  then have z2: "m21 = 0" "m22 = 0"
    by simp_all
  have one: "m11 * m11 + m12 * m12 = 1"
    using mid zero by simp
  then have nz_x: "m11 \<noteq> 0 \<or> - m12 \<noteq> 0"
    by auto
  have s_x: "sqrt (m11\<^sup>2 + (- m12)\<^sup>2) = 1"
    using one by (simp add: power2_eq_square)
  have cx: "cos ax = m11" and sx: "sin ax = - m12"
    unfolding ax_def cos_atan2 [OF nz_x] sin_atan2 [OF nz_x] s_x by simp_all
  have nz_y: "(0::real) \<noteq> 0 \<or> - m20 \<noteq> 0"
    using m20 by auto
  have cyy: "cos ay = 0" and sy: "sin ay = - m20"
    unfolding ay_def cos_atan2 [OF nz_y] sin_atan2 [OF nz_y]
    using abs20 m20 by (simp_all add: power2_eq_square)
  show ?thesis
    unfolding multVec_rotation_from_rpy multVec_axis cx sx cyy sy
    by (simp add: zero z2 x01 x02 algebra_simps)
qed


lemma euler_from_matrix_4x4:
  "euler_from_matrix [[m00, m01, m02, t0], [m10, m11, m12, t1], [m20, m21, m22, t2], [b0, b1, b2, b3]] =
     (if sqrt (m00 * m00 + m10 * m10) > EPS
      then Inr (atan2 m21 m22, atan2 (- m20) (sqrt (m00 * m00 + m10 * m10)), atan2 m10 m00)
      else Inr (atan2 (- m12) m11, atan2 (- m20) (sqrt (m00 * m00 + m10 * m10)), 0))"
  by (simp add: euler_from_matrix_def Let_def)

text \<open>
  The round trip in exact arithmetic. The statements of this subsection are about the
  formulas read over the reals and say nothing about their evaluation in doubles, where
  the entries of the matrix carry rounding errors of the size of the threshold itself
  and the tolerance of the round trip near gimbal lock is a matter of floating-point
  error analysis.

  Over the reals, for a unit quaternion \<open>q\<close> whose matrix \<open>M\<close> has
  \<open>cy = sqrt (M[0,0]\<^sup>2 + M[1,0]\<^sup>2)\<close> above the threshold, or equal to \<open>0\<close>,
  \<open>rotation_from_rpy (rpy_from_quaternion q)\<close> acts on every vector as \<open>q\<close> does.
\<close>

lemma rpy_round_trip_reals:
  assumes unit: "dot (array4 q) (array4 q) = 1"
    and cy: "EPS < sqrt (quaternion_matrix q ! 0 ! 0 * quaternion_matrix q ! 0 ! 0
                       + quaternion_matrix q ! 1 ! 0 * quaternion_matrix q ! 1 ! 0)
             \<or> sqrt (quaternion_matrix q ! 0 ! 0 * quaternion_matrix q ! 0 ! 0
                     + quaternion_matrix q ! 1 ! 0 * quaternion_matrix q ! 1 ! 0) = 0"
  shows "\<exists>rpy. rpy_from_quaternion q = Inr rpy
           \<and> (\<forall>v. multVec (rotation_from_rpy rpy) v = multVec q v)"
proof -
  obtain x y z w where q: "q = (x, y, z, w)"
    by (cases q) auto
  have u: "x * x + y * y + z * z + w * w = 1"
    using unit by (simp add: q unit_quaternion_iff)
  define m00 where "m00 = 1 - 2 * (y * y) - 2 * (z * z)"
  define m01 where "m01 = 2 * (x * y) - 2 * (z * w)"
  define m02 where "m02 = 2 * (x * z) + 2 * (y * w)"
  define m10 where "m10 = 2 * (x * y) + 2 * (z * w)"
  define m11 where "m11 = 1 - 2 * (x * x) - 2 * (z * z)"
  define m12 where "m12 = 2 * (y * z) - 2 * (x * w)"
  define m20 where "m20 = 2 * (x * z) - 2 * (y * w)"
  define m21 where "m21 = 2 * (y * z) + 2 * (x * w)"
  define m22 where "m22 = 1 - 2 * (x * x) - 2 * (y * y)"
  note defs = m00_def m01_def m02_def m10_def m11_def m12_def m20_def m21_def m22_def
  note ids = rotation_matrix_identities [OF u, folded defs]
  have M: "quaternion_matrix q =
      [[m00, m01, m02, 0], [m10, m11, m12, 0], [m20, m21, m22, 0], [0, 0, 0, 1]]"
    unfolding q defs by (rule quaternion_matrix_unit [OF u])
  define cy where "cy = sqrt (m00 * m00 + m10 * m10)"
  have cy_cases: "EPS < cy \<or> cy = 0"
    using cy by (simp add: M cy_def)
  have cy2: "cy * cy = m00 * m00 + m10 * m10"
    by (simp add: cy_def)
  have eps: "0 < EPS"
    by (simp add: EPS_def)
  have rpy: "rpy_from_quaternion q =
      (if cy > EPS then Inr (atan2 m21 m22, atan2 (- m20) cy, atan2 m10 m00)
       else Inr (atan2 (- m12) m11, atan2 (- m20) cy, 0))"
    by (simp only: rpy_from_quaternion_def M euler_from_matrix_4x4 cy_def)
  from cy_cases show ?thesis
  proof
    assume big: "EPS < cy"
    then have pos: "0 < cy"
      using eps by simp
    have "multVec (rotation_from_rpy (atan2 m21 m22, atan2 (- m20) cy, atan2 m10 m00)) v =
        multVec q v" for v
    proof -
      obtain vx vy vz where v: "v = (vx, vy, vz)"
        by (cases v) auto
      show ?thesis
        unfolding v q ids(10)
        by (rule euler_rotation_entries [OF cy2 pos ids(1) ids(2) ids(4) ids(5) ids(6) ids(7)])
    qed
    with big show ?thesis
      by (simp add: rpy)
  next
    assume zero: "cy = 0"
    then have "m00 * m00 + m10 * m10 = 0"
      using cy2 by simp
    then have z: "m00 = 0" "m10 = 0"
      by simp_all
    have "multVec (rotation_from_rpy (atan2 (- m12) m11, atan2 (- m20) 0, 0)) v =
        multVec q v" for v
    proof -
      obtain vx vy vz where v: "v = (vx, vy, vz)"
        by (cases v) auto
      show ?thesis
        unfolding v q ids(10)
        by (rule euler_rotation_entries_gimbal [OF z ids(1) ids(2) ids(3) ids(8) ids(9)])
    qed
    with zero eps show ?thesis
      by (simp add: rpy)
  qed
qed

lemma quarter_turn_unit: "dot (array4 (0, 0, sqrt 2 / 2, sqrt 2 / 2)) (array4 (0, 0, sqrt 2 / 2, sqrt 2 / 2)) = 1"
  by (simp add: unit_quaternion_iff)

lemma upright_turn_matrix:
  "quaternion_matrix (0, sqrt 2 / 2, 0, sqrt 2 / 2) =
     [[0, 0, 1, 0], [0, 1, 0, 0], [- 1, 0, 0, 0], [0, 0, 0, 1]]"
proof -
  have u: "0 * 0 + sqrt 2 / 2 * (sqrt 2 / 2) + 0 * 0 + sqrt 2 / 2 * (sqrt 2 / 2) = (1::real)"
    by simp
  show ?thesis
    unfolding quaternion_matrix_unit [OF u] by simp
qed

lemma rpy_round_trip_reals_examples:
  "dot (array4 (0, 0, sqrt 2 / 2, sqrt 2 / 2)) (array4 (0, 0, sqrt 2 / 2, sqrt 2 / 2)) = 1
   \<and> EPS < sqrt (quaternion_matrix (0, 0, sqrt 2 / 2, sqrt 2 / 2) ! 0 ! 0
                  * quaternion_matrix (0, 0, sqrt 2 / 2, sqrt 2 / 2) ! 0 ! 0
                + quaternion_matrix (0, 0, sqrt 2 / 2, sqrt 2 / 2) ! 1 ! 0
                  * quaternion_matrix (0, 0, sqrt 2 / 2, sqrt 2 / 2) ! 1 ! 0)
   \<and> rpy_from_quaternion (0, 0, sqrt 2 / 2, sqrt 2 / 2) = Inr (0, 0, pi / 2)
   \<and> (\<forall>v. multVec (rotation_from_rpy (0, 0, pi / 2)) v = multVec (0, 0, sqrt 2 / 2, sqrt 2 / 2) v)
   \<and> dot (array4 (0, sqrt 2 / 2, 0, sqrt 2 / 2)) (array4 (0, sqrt 2 / 2, 0, sqrt 2 / 2)) = 1
   \<and> sqrt (quaternion_matrix (0, sqrt 2 / 2, 0, sqrt 2 / 2) ! 0 ! 0
            * quaternion_matrix (0, sqrt 2 / 2, 0, sqrt 2 / 2) ! 0 ! 0
          + quaternion_matrix (0, sqrt 2 / 2, 0, sqrt 2 / 2) ! 1 ! 0
            * quaternion_matrix (0, sqrt 2 / 2, 0, sqrt 2 / 2) ! 1 ! 0) = 0
   \<and> rpy_from_quaternion (0, sqrt 2 / 2, 0, sqrt 2 / 2) = Inr (0, pi / 2, 0)
   \<and> (\<forall>v. multVec (rotation_from_rpy (0, pi / 2, 0)) v = multVec (0, sqrt 2 / 2, 0, sqrt 2 / 2) v)"
proof -
  have cy: "EPS < sqrt (quaternion_matrix (0, 0, sqrt 2 / 2, sqrt 2 / 2) ! 0 ! 0
                  * quaternion_matrix (0, 0, sqrt 2 / 2, sqrt 2 / 2) ! 0 ! 0
                + quaternion_matrix (0, 0, sqrt 2 / 2, sqrt 2 / 2) ! 1 ! 0
                  * quaternion_matrix (0, 0, sqrt 2 / 2, sqrt 2 / 2) ! 1 ! 0)"
    by (simp add: quarter_turn_matrix EPS_def)
  from rpy_round_trip_reals [OF quarter_turn_unit disjI1 [OF cy]]
  have regular: "\<forall>v. multVec (rotation_from_rpy (0, 0, pi / 2)) v =
      multVec (0, 0, sqrt 2 / 2, sqrt 2 / 2) v"
    by (simp add: quarter_turn_rpy)
  have unit': "dot (array4 (0, sqrt 2 / 2, 0, sqrt 2 / 2)) (array4 (0, sqrt 2 / 2, 0, sqrt 2 / 2)) = 1"
    by (simp add: unit_quaternion_iff)
  have cy': "sqrt (quaternion_matrix (0, sqrt 2 / 2, 0, sqrt 2 / 2) ! 0 ! 0
            * quaternion_matrix (0, sqrt 2 / 2, 0, sqrt 2 / 2) ! 0 ! 0
          + quaternion_matrix (0, sqrt 2 / 2, 0, sqrt 2 / 2) ! 1 ! 0
            * quaternion_matrix (0, sqrt 2 / 2, 0, sqrt 2 / 2) ! 1 ! 0) = 0"
    by (simp add: upright_turn_matrix)
  have rpy': "rpy_from_quaternion (0, sqrt 2 / 2, 0, sqrt 2 / 2) = Inr (0, pi / 2, 0)"
    by (simp add: rpy_from_quaternion_def upright_turn_matrix euler_from_matrix_4x4 EPS_def
        atan2_def)
  from rpy_round_trip_reals [OF unit' disjI2 [OF cy']]
  have gimbal: "\<forall>v. multVec (rotation_from_rpy (0, pi / 2, 0)) v =
      multVec (0, sqrt 2 / 2, 0, sqrt 2 / 2) v"
    by (simp add: rpy')
  from quarter_turn_unit cy quarter_turn_rpy regular unit' cy' rpy' gimbal show ?thesis
    by (intro conjI)
qed

text \<open>
  Between the two cases the gimbal-lock branch sets the yaw to \<open>0\<close>, and the two actions
  differ by an amount of the order of the threshold: for the rotation about the y axis
  whose matrix has \<open>M[0,0] = - EPS\<close>, \<open>cy\<close> equals the threshold, and the rotation
  returned maps \<open>(1, 0, 0)\<close> to a vector whose first coordinate is positive, where \<open>q\<close>
  maps it to one whose first coordinate is \<open>- EPS\<close>.
\<close>

lemma EPS_bounds: "0 < EPS" "EPS < 1"
  by (simp_all add: EPS_def)

lemma near_gimbal_squares:
  "sqrt ((1 + EPS) / 2) * sqrt ((1 + EPS) / 2) = (1 + EPS) / 2"
  "sqrt ((1 - EPS) / 2) * sqrt ((1 - EPS) / 2) = (1 - EPS) / 2"
  "\<bar>1 + EPS\<bar> = 1 + EPS"
  "\<bar>1 - EPS\<bar> = 1 - EPS"
  using EPS_bounds by simp_all

lemma near_gimbal_unit:
  "dot (array4 (0, sqrt ((1 + EPS) / 2), 0, sqrt ((1 - EPS) / 2)))
       (array4 (0, sqrt ((1 + EPS) / 2), 0, sqrt ((1 - EPS) / 2))) = 1"
  by (simp add: unit_quaternion_iff near_gimbal_squares field_simps)

lemma near_gimbal_matrix:
  "quaternion_matrix (0, sqrt ((1 + EPS) / 2), 0, sqrt ((1 - EPS) / 2)) =
     [[- EPS, 0, 2 * (sqrt ((1 + EPS) / 2) * sqrt ((1 - EPS) / 2)), 0],
      [0, 1, 0, 0],
      [- (2 * (sqrt ((1 + EPS) / 2) * sqrt ((1 - EPS) / 2))), 0, - EPS, 0],
      [0, 0, 0, 1]]"
proof -
  let ?a = "sqrt ((1 + EPS) / 2)" and ?b = "sqrt ((1 - EPS) / 2)"
  have u: "0 * 0 + ?a * ?a + 0 * 0 + ?b * ?b = (1::real)"
    by (simp add: near_gimbal_squares field_simps)
  show ?thesis
    unfolding quaternion_matrix_unit [OF u]
    by (simp add: near_gimbal_squares field_simps)
qed

lemma near_gimbal_rpy:
  "rpy_from_quaternion (0, sqrt ((1 + EPS) / 2), 0, sqrt ((1 - EPS) / 2)) =
     Inr (0, atan2 (2 * (sqrt ((1 + EPS) / 2) * sqrt ((1 - EPS) / 2))) EPS, 0)"
proof -
  have cy: "sqrt (- EPS * - EPS + 0 * 0) = EPS"
    using EPS_bounds by simp
  have zero: "atan2 (- 0) 1 = 0"
    by (simp add: atan2_def)
  show ?thesis
    unfolding rpy_from_quaternion_def near_gimbal_matrix euler_from_matrix_4x4 cy zero
    by simp
qed

lemma rpy_round_trip_reals_threshold:
  "dot (array4 (0, sqrt ((1 + EPS) / 2), 0, sqrt ((1 - EPS) / 2)))
       (array4 (0, sqrt ((1 + EPS) / 2), 0, sqrt ((1 - EPS) / 2))) = 1
   \<and> (\<exists>rpy. rpy_from_quaternion (0, sqrt ((1 + EPS) / 2), 0, sqrt ((1 - EPS) / 2)) = Inr rpy
          \<and> multVec (rotation_from_rpy rpy) (1, 0, 0)
              \<noteq> multVec (0, sqrt ((1 + EPS) / 2), 0, sqrt ((1 - EPS) / 2)) (1, 0, 0))"
proof -
  let ?a = "sqrt ((1 + EPS) / 2)" and ?b = "sqrt ((1 - EPS) / 2)"
  let ?ay = "atan2 (2 * (?a * ?b)) EPS"
  have "?ay = arctan (2 * (?a * ?b) / EPS)"
    using EPS_bounds by (simp add: atan2_def)
  moreover have "0 < cos (arctan (2 * (?a * ?b) / EPS))"
    by (rule cos_gt_zero_pi [OF arctan_lbound arctan_ubound])
  ultimately have pos: "0 < cos ?ay"
    by simp
  have "fst (multVec (rotation_from_rpy (0, ?ay, 0)) (1, 0, 0)) = cos ?ay"
    unfolding multVec_rotation_from_rpy multVec_axis by simp
  moreover have "fst (multVec (0, ?a, 0, ?b) (1, 0, 0)) = - EPS"
    by (simp add: multVec_def near_gimbal_squares field_simps)
  ultimately have "multVec (rotation_from_rpy (0, ?ay, 0)) (1, 0, 0) \<noteq> multVec (0, ?a, 0, ?b) (1, 0, 0)"
    using pos EPS_bounds(1) by (metis less_asym neg_less_0_iff_less)
  with near_gimbal_unit near_gimbal_rpy show ?thesis
    by simp
qed

end
